theory Spec2Isabelle
  imports Main "HOL-Library.Word"
begin

section \<open>The map builder of the SumDB batch map\<close>

text \<open>
  The program is the command \<open>main\<close> that builds one revision of a verifiable map from a
  local mirror of the Go SumDB log. It is control code around four collaborators that are
  libraries: the SQL driver, the tile database \<open>mapdb.TileDB\<close>, the tree builder
  \<open>batchmap\<close> and the Beam dataflow engine. The model keeps the control code as it is
  written and takes what the libraries answer as parameters. A run of \<open>main\<close> is a pair:
  the list of the calls it made to the outside, in order, and how the process ended.

  Numbers: the flags \<open>tree_id\<close> and \<open>count\<close> are \<open>int64\<close>, revisions and the other
  numeric flags are \<open>int\<close>. The program only compares and copies them, it computes
  nothing with them, so they are modelled as \<open>int\<close> and no overflow can occur.
\<close>

subsection \<open>Data\<close>

type_synonym bytes = "8 word list"

text \<open>The command line flags (source lines 44 to 53).\<close>

record flags =
  sumDBString :: string
  mapDBString :: string
  treeID :: int
  prefixStrata :: int
  count :: int
  batchSize :: int
  incrementalUpdate :: bool
  buildVersionList :: bool

text \<open>
  Error values. \<open>ErrNoRows\<close> is what \<open>Scan\<close> answers when a query has no row;
  \<open>External\<close> stands for any other error handed back by a library; the remaining ones
  are the errors built with \<open>fmt.Errorf\<close> in \<open>newSumDBMirrorFromFlags\<close> and
  \<open>sinkFromFlags\<close>.
\<close>

datatype error =
    ErrNoRows
  | External string
  | MissingFlag string
  | FailedToOpenMapDB string error
  | FailedToInitMapDB string error
  | FailedToQueryNextWriteRevision error

text \<open>The calls of \<open>glog.Exitf\<close> in \<open>main\<close>, one constructor for each, in source order.\<close>

datatype fatal =
    Unsupported
  | FailedToInitializeSumDB error
  | FailedToInitializeMapDB error
  | FailedToGetEntryMetadata error
  | WantedLeaves int int
  | FailedToGetLatestRevision error
  | StartGeEnd int int
  | FailedToCreatePipeline error
  | FailedToExecuteJob error
  | FailedToFinalize int error

datatype outcome = Returned | Exited fatal

text \<open>\<open>const hash = crypto.SHA512_256\<close> (source line 42).\<close>

datatype crypto_Hash = SHA512_256

definition hash :: crypto_Hash where
  "hash = SHA512_256"

text \<open>
  Modelled from the spec: the row type \<open>pipeline.Metadata\<close> of table \<open>leafMetadata\<close>
  is not among the sources. The spec's Entry is a record addressed by an integer ID that
  carries a key and a payload; the program itself only uses the column \<open>id\<close>.
\<close>

record Metadata =
  ID :: int
  payload :: string

text \<open>
  The handle \<open>*sql.DB\<close> of the log mirror: the two tables the program reads, and for
  each of its two queries whether the driver fails on it. A row of \<open>checkpoints\<close> is
  its \<open>datetime\<close> (a timestamp, ordered) and its \<open>checkpoint\<close> blob.
\<close>

record sql_DB =
  checkpoints :: "(int \<times> bytes) list"
  leafMetadata :: "Metadata list"
  checkpointQueryErr :: "error option"
  leafCountQueryErr :: "error option"

text \<open>\<open>type sumDBMirror struct\<close> (source lines 194 to 197).\<close>

record sumDBMirror =
  dbString :: string
  db :: sql_DB

text \<open>
  The handle \<open>*mapdb.TileDB\<close>. Package \<open>mapdb\<close> is not among the sources, so what its
  four methods answer is a parameter: \<open>Init\<close> and \<open>WriteRevision\<close> answer an error or
  nothing, \<open>NextWriteRevision\<close> an error or a revision number, \<open>LatestRevision\<close> an
  error or the number, the checkpoint and the covered entry count of the latest revision.
\<close>

record TileDB =
  Init :: "error option"
  NextWriteRevision :: "error + int"
  LatestRevision :: "error + (int \<times> bytes \<times> int)"
  WriteRevision :: "int \<Rightarrow> bytes \<Rightarrow> int \<Rightarrow> error option"

text \<open>\<open>type MapTile struct\<close> (source lines 164 to 168) and \<open>type tileToDBRowFn struct\<close>
  (lines 170 to 172).\<close>

record MapTile =
  Revision :: int
  Path :: bytes
  Tile :: bytes

record tileToDBRowFn =
  fn_Revision :: int

text \<open>
  \<open>batchmap.Tile\<close> belongs to another repository. The program reads one field of it,
  \<open>Path\<close>; the other fields are the extension of this record, so that every statement
  about \<open>'a batchmap_Tile_scheme\<close> holds whatever they are.
\<close>

record batchmap_Tile =
  tile_Path :: bytes

subsection \<open>The dataflow graph\<close>

text \<open>
  Beam builds a graph first and runs it later (source line 132). The graph is a value:
  one constructor for each transform the program applies. The two SQL texts are built
  with \<open>fmt.Sprintf\<close> from a fixed pattern and numbers; a query is that pattern with
  its numbers. Scope names are labels only and are left out.
\<close>

datatype query =
    SelectLeafMetadata int int
  | SelectTiles int

datatype pcollection =
    DatabaseQuery string query
  | CreateEntries int pcollection
  | MakeVersionList pcollection
  | Flatten pcollection pcollection
  | ParDo_tileFromDBRowFn pcollection
  | BatchmapUpdate pcollection pcollection int crypto_Hash int
  | BatchmapCreate pcollection int crypto_Hash int
  | ParDo_tileToDBRowFn tileToDBRowFn pcollection

datatype pipeline =
    WriteWithBatchSize int string string pcollection

text \<open>
  What the query of the source selects:
  \<open>SELECT * FROM leafMetadata WHERE id >= start AND id < end\<close> (line 223).
\<close>

definition select_leafMetadata :: "Metadata list \<Rightarrow> int \<Rightarrow> int \<Rightarrow> Metadata list" where
  "select_leafMetadata rows start end = filter (\<lambda>r. start \<le> ID r \<and> ID r < end) rows"

subsection \<open>The outside world\<close>

text \<open>
  Every call the program makes to the outside, with its arguments. A run records them in
  order.
\<close>

datatype event =
    EvSqlOpen string
  | EvNewTileDB string
  | EvInit
  | EvNextWriteRevision
  | EvQueryCheckpoint
  | EvQueryLeafCount
  | EvLatestRevision
  | EvBeamInit
  | EvNewPipelineWithRoot
  | EvInfofUpdating int int int
  | EvInfofCreating int
  | EvBatchmapUpdate pcollection pcollection int crypto_Hash int
  | EvBatchmapCreate pcollection int crypto_Hash int
  | EvRun pipeline
  | EvWriteRevision int bytes int

text \<open>
  What the libraries answer: opening the mirror and the tile database at a path, whether
  \<open>batchmap.Create\<close> and \<open>batchmap.Update\<close> reject their arguments when the graph is
  built, and whether running the graph fails.
\<close>

record env =
  sql_Open :: "string \<Rightarrow> error + sql_DB"
  mapdb_NewTileDB :: "string \<Rightarrow> error + TileDB"
  batchmap_Create :: "pcollection \<Rightarrow> int \<Rightarrow> crypto_Hash \<Rightarrow> int \<Rightarrow> error option"
  batchmap_Update :: "pcollection \<Rightarrow> pcollection \<Rightarrow> int \<Rightarrow> crypto_Hash \<Rightarrow> int \<Rightarrow> error option"
  beamx_Run :: "pipeline \<Rightarrow> error option"

subsection \<open>The log mirror\<close>

text \<open>
  \<open>newSumDBMirrorFromFlags\<close> (source lines 199 to 208). Go returns the struct together
  with the error of \<open>sql.Open\<close>; \<open>main\<close> looks at the struct only when the error is
  nil, so the model returns one or the other.
\<close>

definition newSumDBMirrorFromFlags :: "flags \<Rightarrow> env \<Rightarrow> event list \<times> (error + sumDBMirror)" where
  "newSumDBMirrorFromFlags f w =
     (if length (sumDBString f) = 0 then ([], Inl (MissingFlag ''sum_db''))
      else
        (case sql_Open w (sumDBString f) of
           Inl err \<Rightarrow> ([EvSqlOpen (sumDBString f)], Inl err)
         | Inr d \<Rightarrow>
             ([EvSqlOpen (sumDBString f)],
              Inr \<lparr>dbString = sumDBString f, db = d\<rparr>)))"

text \<open>
  \<open>SELECT checkpoint FROM checkpoints ORDER BY datetime DESC LIMIT 1\<close>: the rows in
  descending order of \<open>datetime\<close>, cut after the first. SQL leaves open which of two
  rows with the same \<open>datetime\<close> comes first; the model takes the one stored last.
\<close>

definition order_by_datetime_desc :: "(int \<times> bytes) list \<Rightarrow> (int \<times> bytes) list" where
  "order_by_datetime_desc rows = rev (sort_key fst rows)"

definition limit_1 :: "'a list \<Rightarrow> 'a list" where
  "limit_1 rows = take 1 rows"

text \<open>
  \<open>getEntryMetadata\<close> (source lines 210 to 219). \<open>QueryRow(...).Scan(&cp)\<close> fails when
  the driver fails and answers \<open>sql.ErrNoRows\<close> when the query has no row. The count
  query always has a row, the number of rows of \<open>leafMetadata\<close>. The last line is
  \<open>return cp, leafCount, ...Scan(&leafCount)\<close>: the Go compiler makes the call before it
  reads the variable \<open>leafCount\<close>, so the count returned is the one just scanned. With
  an error Go also returns values beside it, which \<open>main\<close> never reads.
\<close>

definition getEntryMetadata :: "sumDBMirror \<Rightarrow> event list \<times> (error + bytes \<times> int)" where
  "getEntryMetadata m =
     (case checkpointQueryErr (db m) of
        Some err \<Rightarrow> ([EvQueryCheckpoint], Inl err)
      | None \<Rightarrow>
          (case limit_1 (order_by_datetime_desc (checkpoints (db m))) of
             [] \<Rightarrow> ([EvQueryCheckpoint], Inl ErrNoRows)
           | row # _ \<Rightarrow>
               (let cp = snd row in
                case leafCountQueryErr (db m) of
                  Some err \<Rightarrow> ([EvQueryCheckpoint, EvQueryLeafCount], Inl err)
                | None \<Rightarrow>
                    (let leafCount = int (length (leafMetadata (db m))) in
                     ([EvQueryCheckpoint, EvQueryLeafCount], Inr (cp, leafCount))))))"

text \<open>\<open>beamSource\<close> (source lines 221 to 224).\<close>

definition beamSource :: "sumDBMirror \<Rightarrow> int \<Rightarrow> int \<Rightarrow> pcollection" where
  "beamSource m start end = DatabaseQuery (dbString m) (SelectLeafMetadata start end)"

subsection \<open>The tile sink\<close>

text \<open>\<open>sinkFromFlags\<close> (source lines 142 to 161).\<close>

definition sinkFromFlags :: "flags \<Rightarrow> env \<Rightarrow> event list \<times> (error + TileDB \<times> int)" where
  "sinkFromFlags f w =
     (if length (mapDBString f) = 0 then ([], Inl (MissingFlag ''map_db''))
      else
        (case mapdb_NewTileDB w (mapDBString f) of
           Inl err \<Rightarrow> ([EvNewTileDB (mapDBString f)], Inl (FailedToOpenMapDB (mapDBString f) err))
         | Inr tiledb \<Rightarrow>
             (case Init tiledb of
                Some err \<Rightarrow>
                  ([EvNewTileDB (mapDBString f), EvInit],
                   Inl (FailedToInitMapDB (mapDBString f) err))
              | None \<Rightarrow>
                  (case NextWriteRevision tiledb of
                     Inl err \<Rightarrow>
                       ([EvNewTileDB (mapDBString f), EvInit, EvNextWriteRevision],
                        Inl (FailedToQueryNextWriteRevision err))
                   | Inr r \<Rightarrow>
                       ([EvNewTileDB (mapDBString f), EvInit, EvNextWriteRevision],
                        Inr (tiledb, r))))))"

text \<open>
  \<open>tileToDBRowFn.ProcessElement\<close> (source lines 174 to 184) and \<open>tileFromDBRowFn\<close>
  (lines 186 to 192). \<open>json.Marshal\<close> and \<open>json.Unmarshal\<close> are the standard
  library's; they are the parameters \<open>marshal\<close> and \<open>unmarshal\<close>.
\<close>

definition ProcessElement ::
  "('a batchmap_Tile_scheme \<Rightarrow> error + bytes) \<Rightarrow> tileToDBRowFn \<Rightarrow> 'a batchmap_Tile_scheme \<Rightarrow>
   error + MapTile" where
  "ProcessElement marshal fn t =
     (case marshal t of
        Inl err \<Rightarrow> Inl err
      | Inr bs \<Rightarrow> Inr \<lparr>Revision = fn_Revision fn, Path = tile_Path t, Tile = bs\<rparr>)"

definition tileFromDBRowFn ::
  "(bytes \<Rightarrow> error + 'a batchmap_Tile_scheme) \<Rightarrow> MapTile \<Rightarrow> error + 'a batchmap_Tile_scheme" where
  "tileFromDBRowFn unmarshal t =
     (case unmarshal (Tile t) of
        Inl err \<Rightarrow> Inl err
      | Inr res \<Rightarrow> Inr res)"

text \<open>
  \<open>beam.ParDo\<close> applies an element function to every element of a collection; the
  first error fails the run of the graph.
\<close>

fun parDo :: "('a \<Rightarrow> error + 'b) \<Rightarrow> 'a list \<Rightarrow> error + 'b list" where
  "parDo g [] = Inr []"
| "parDo g (x # xs) =
     (case g x of
        Inl err \<Rightarrow> Inl err
      | Inr y \<Rightarrow> (case parDo g xs of Inl err \<Rightarrow> Inl err | Inr ys \<Rightarrow> Inr (y # ys)))"

subsection \<open>The command\<close>

text \<open>
  The second half of \<open>main\<close> (source lines 106 to 140), cut where the source has its
  blank lines: \<open>assemble_entries\<close> is lines 109 to 114, \<open>tree_transform\<close> lines 116
  to 124, \<open>sink_pipeline\<close> lines 129 and 130, \<open>run_and_commit\<close> lines 132 to 139, and
  \<open>build_and_commit\<close> puts them in sequence. Their arguments are the local variables of
  \<open>main\<close> that are live at that point. \<open>beamlog.SetLogger\<close> (line 107) only chooses
  where Beam logs and is left out, as are the driver name \<open>sqlite3\<close> and the empty
  column list of the sink, which are constants.
\<close>

definition assemble_entries :: "flags \<Rightarrow> sumDBMirror \<Rightarrow> int \<Rightarrow> int \<Rightarrow> pcollection" where
  "assemble_entries f sumDB startID endID =
     (let records = beamSource sumDB startID endID;
          entries = CreateEntries (treeID f) records
      in if buildVersionList f then Flatten entries (MakeVersionList records) else entries)"

definition tree_transform ::
  "flags \<Rightarrow> env \<Rightarrow> pcollection \<Rightarrow> int \<Rightarrow> int \<Rightarrow> int \<Rightarrow> event list \<times> (error + pcollection)" where
  "tree_transform f w entries endID startID lastMapRev =
     (if incrementalUpdate f then
        (let mapTiles = DatabaseQuery (mapDBString f) (SelectTiles lastMapRev);
             prior = ParDo_tileFromDBRowFn mapTiles
         in ([EvInfofUpdating lastMapRev startID endID,
              EvBatchmapUpdate prior entries (treeID f) hash (prefixStrata f)],
             (case batchmap_Update w prior entries (treeID f) hash (prefixStrata f) of
                Some err \<Rightarrow> Inl err
              | None \<Rightarrow> Inr (BatchmapUpdate prior entries (treeID f) hash (prefixStrata f)))))
      else
        ([EvInfofCreating endID,
          EvBatchmapCreate entries (treeID f) hash (prefixStrata f)],
         (case batchmap_Create w entries (treeID f) hash (prefixStrata f) of
            Some err \<Rightarrow> Inl err
          | None \<Rightarrow> Inr (BatchmapCreate entries (treeID f) hash (prefixStrata f)))))"

definition sink_pipeline :: "flags \<Rightarrow> int \<Rightarrow> pcollection \<Rightarrow> pipeline" where
  "sink_pipeline f r allTiles =
     (let rows = ParDo_tileToDBRowFn \<lparr>fn_Revision = r\<rparr> allTiles
      in WriteWithBatchSize (batchSize f) (mapDBString f) ''tiles'' rows)"

definition run_and_commit ::
  "env \<Rightarrow> TileDB \<Rightarrow> int \<Rightarrow> bytes \<Rightarrow> int \<Rightarrow> pipeline \<Rightarrow> event list \<times> outcome" where
  "run_and_commit w mapDB r golden endID p =
     (case beamx_Run w p of
        Some err \<Rightarrow> ([EvRun p], Exited (FailedToExecuteJob err))
      | None \<Rightarrow>
          (case WriteRevision mapDB r golden endID of
             Some err \<Rightarrow> ([EvRun p, EvWriteRevision r golden endID], Exited (FailedToFinalize r err))
           | None \<Rightarrow> ([EvRun p, EvWriteRevision r golden endID], Returned)))"

definition build_and_commit ::
  "flags \<Rightarrow> env \<Rightarrow> sumDBMirror \<Rightarrow> TileDB \<Rightarrow> int \<Rightarrow> bytes \<Rightarrow> int \<Rightarrow> int \<Rightarrow> int \<Rightarrow>
   event list \<times> outcome" where
  "build_and_commit f w sumDB mapDB r golden endID startID lastMapRev =
     (let entries = assemble_entries f sumDB startID endID
      in case tree_transform f w entries endID startID lastMapRev of
           (t, Inl err) \<Rightarrow>
             ([EvBeamInit, EvNewPipelineWithRoot] @ t, Exited (FailedToCreatePipeline err))
         | (t, Inr allTiles) \<Rightarrow>
             (case run_and_commit w mapDB r golden endID (sink_pipeline f r allTiles) of
                (t', out) \<Rightarrow> ([EvBeamInit, EvNewPipelineWithRoot] @ t @ t', out)))"

text \<open>
  The range of entries (source lines 85 to 104). \<open>resolve_endID\<close> is lines 86 to 91.
  \<open>resolve_startID\<close> is lines 94 to 104; it answers \<open>startID\<close> and \<open>lastMapRev\<close>,
  which Go initialises to zero.
\<close>

definition resolve_endID :: "flags \<Rightarrow> int \<Rightarrow> int" where
  "resolve_endID f totalLeaves = (if count f < 0 then totalLeaves else count f)"

definition resolve_startID :: "flags \<Rightarrow> TileDB \<Rightarrow> int \<Rightarrow> event list \<times> (fatal + int \<times> int)" where
  "resolve_startID f mapDB endID =
     (if incrementalUpdate f then
        (case LatestRevision mapDB of
           Inl err \<Rightarrow> ([EvLatestRevision], Inl (FailedToGetLatestRevision err))
         | Inr (lastMapRev, _, startID) \<Rightarrow>
             if startID \<ge> endID then ([EvLatestRevision], Inl (StartGeEnd startID endID))
             else ([EvLatestRevision], Inr (startID, lastMapRev)))
      else ([], Inr (0, 0)))"

text \<open>\<open>main\<close> (source lines 60 to 140).\<close>

definition main :: "flags \<Rightarrow> env \<Rightarrow> event list \<times> outcome" where
  "main f w =
     (if buildVersionList f \<and> incrementalUpdate f then ([], Exited Unsupported)
      else
        (case newSumDBMirrorFromFlags f w of
           (t1, Inl err) \<Rightarrow> (t1, Exited (FailedToInitializeSumDB err))
         | (t1, Inr sumDB) \<Rightarrow>
             (case sinkFromFlags f w of
                (t2, Inl err) \<Rightarrow> (t1 @ t2, Exited (FailedToInitializeMapDB err))
              | (t2, Inr (mapDB, r)) \<Rightarrow>
                  (case getEntryMetadata sumDB of
                     (t3, Inl err) \<Rightarrow> (t1 @ t2 @ t3, Exited (FailedToGetEntryMetadata err))
                   | (t3, Inr (golden, totalLeaves)) \<Rightarrow>
                       if totalLeaves < count f then
                         (t1 @ t2 @ t3, Exited (WantedLeaves (count f) totalLeaves))
                       else
                         (let endID = resolve_endID f totalLeaves in
                          case resolve_startID f mapDB endID of
                            (t4, Inl x) \<Rightarrow> (t1 @ t2 @ t3 @ t4, Exited x)
                          | (t4, Inr (startID, lastMapRev)) \<Rightarrow>
                              (case build_and_commit f w sumDB mapDB r golden endID startID
                                      lastMapRev of
                                 (t5, out) \<Rightarrow> (t1 @ t2 @ t3 @ t4 @ t5, out)))))))"

subsection \<open>Reading a run\<close>

text \<open>
  The kinds of events the properties speak of. A graph event is a call that constructs or
  runs the dataflow graph. Tiles are written when the graph runs (its sink is table
  \<open>tiles\<close>), the revision when \<open>WriteRevision\<close> is called. A tree call is one of the two
  calls of the tree builder. The range events are the reads that range resolution
  depends on.
\<close>

fun graph_event :: "event \<Rightarrow> bool" where
  "graph_event EvBeamInit = True"
| "graph_event EvNewPipelineWithRoot = True"
| "graph_event (EvBatchmapUpdate _ _ _ _ _) = True"
| "graph_event (EvBatchmapCreate _ _ _ _) = True"
| "graph_event (EvRun _) = True"
| "graph_event _ = False"

fun tile_or_revision_write :: "event \<Rightarrow> bool" where
  "tile_or_revision_write (EvRun _) = True"
| "tile_or_revision_write (EvWriteRevision _ _ _) = True"
| "tile_or_revision_write _ = False"

fun revision_write :: "event \<Rightarrow> bool" where
  "revision_write (EvWriteRevision _ _ _) = True"
| "revision_write _ = False"

fun tree_call :: "event \<Rightarrow> bool" where
  "tree_call (EvBatchmapUpdate _ _ _ _ _) = True"
| "tree_call (EvBatchmapCreate _ _ _ _) = True"
| "tree_call _ = False"

fun range_event :: "event \<Rightarrow> bool" where
  "range_event EvQueryCheckpoint = True"
| "range_event EvQueryLeafCount = True"
| "range_event EvLatestRevision = True"
| "range_event _ = False"

text \<open>Whether a collection of the graph reads table \<open>tiles\<close> back from the tile store.\<close>

fun reads_tiles :: "pcollection \<Rightarrow> bool" where
  "reads_tiles (DatabaseQuery _ (SelectTiles _)) = True"
| "reads_tiles (DatabaseQuery _ (SelectLeafMetadata _ _)) = False"
| "reads_tiles (CreateEntries _ c) = reads_tiles c"
| "reads_tiles (MakeVersionList c) = reads_tiles c"
| "reads_tiles (Flatten c d) = (reads_tiles c \<or> reads_tiles d)"
| "reads_tiles (ParDo_tileFromDBRowFn c) = reads_tiles c"
| "reads_tiles (BatchmapUpdate c d _ _ _) = (reads_tiles c \<or> reads_tiles d)"
| "reads_tiles (BatchmapCreate c _ _ _) = reads_tiles c"
| "reads_tiles (ParDo_tileToDBRowFn _ c) = reads_tiles c"

text \<open>
  The spec's names for the fatal errors of range and mode resolution: a range error is
  one of insufficient entries, a missing prior revision and a range that does not
  advance; the configuration error is the conflict of the two flags.
\<close>

fun range_error :: "fatal \<Rightarrow> bool" where
  "range_error (WantedLeaves _ _) = True"
| "range_error (FailedToGetLatestRevision _) = True"
| "range_error (StartGeEnd _ _) = True"
| "range_error _ = False"

fun config_error :: "fatal \<Rightarrow> bool" where
  "config_error Unsupported = True"
| "config_error _ = False"

subsection \<open>Sample inputs\<close>

text \<open>
  The flags with their default values and the two paths set; a mirror with three entries
  and two checkpoints; a tile database with one committed revision, number 0, covering
  two entries; libraries that accept everything.
\<close>

definition sample_flags :: flags where
  "sample_flags =
     \<lparr>sumDBString = ''sum.db'', mapDBString = ''map.db'', treeID = 12345, prefixStrata = 2,
      count = - 1, batchSize = 250, incrementalUpdate = False, buildVersionList = False\<rparr>"

definition sample_mirror :: sql_DB where
  "sample_mirror =
     \<lparr>checkpoints = [(10, [1]), (30, [3]), (20, [2])],
      leafMetadata = [\<lparr>ID = 0, payload = ''a''\<rparr>, \<lparr>ID = 1, payload = ''b''\<rparr>, \<lparr>ID = 2, payload = ''c''\<rparr>],
      checkpointQueryErr = None, leafCountQueryErr = None\<rparr>"

definition empty_mirror :: sql_DB where
  "empty_mirror =
     \<lparr>checkpoints = [], leafMetadata = [], checkpointQueryErr = None, leafCountQueryErr = None\<rparr>"

definition no_entries_mirror :: sql_DB where
  "no_entries_mirror =
     \<lparr>checkpoints = [(10, [1])], leafMetadata = [], checkpointQueryErr = None,
      leafCountQueryErr = None\<rparr>"

definition sample_tiledb :: TileDB where
  "sample_tiledb =
     \<lparr>Init = None, NextWriteRevision = Inr 1, LatestRevision = Inr (0, [1], 2),
      WriteRevision = (\<lambda>r golden n. None)\<rparr>"

definition fresh_tiledb :: TileDB where
  "fresh_tiledb =
     \<lparr>Init = None, NextWriteRevision = Inr 0, LatestRevision = Inl (External ''no revisions found''),
      WriteRevision = (\<lambda>r golden n. None)\<rparr>"

definition sample_env :: "sql_DB \<Rightarrow> TileDB \<Rightarrow> env" where
  "sample_env d t =
     \<lparr>sql_Open = (\<lambda>path. Inr d), mapdb_NewTileDB = (\<lambda>path. Inr t),
      batchmap_Create = (\<lambda>entries tree h strata. None),
      batchmap_Update = (\<lambda>prior entries tree h strata. None),
      beamx_Run = (\<lambda>p. None)\<rparr>"

definition failing_run_env :: "sql_DB \<Rightarrow> TileDB \<Rightarrow> env" where
  "failing_run_env d t = (sample_env d t)\<lparr>beamx_Run := (\<lambda>p. Some (External ''transform failed''))\<rparr>"

definition rejecting_builder_env :: "sql_DB \<Rightarrow> TileDB \<Rightarrow> env" where
  "rejecting_builder_env d t =
     (sample_env d t)\<lparr>batchmap_Update :=
        (\<lambda>prior entries tree h strata. Some (External ''prefix strata out of range''))\<rparr>"

text \<open>
  A codec for tiles that have no field besides the path: the serialized tile is the path.
\<close>

definition path_marshal :: "batchmap_Tile \<Rightarrow> error + bytes" where
  "path_marshal t = Inr (tile_Path t)"

definition path_unmarshal :: "bytes \<Rightarrow> error + batchmap_Tile" where
  "path_unmarshal bs = Inr \<lparr>tile_Path = bs\<rparr>"

lemmas sample_defs =
  sample_flags_def sample_mirror_def empty_mirror_def no_entries_mirror_def sample_tiledb_def
  fresh_tiledb_def sample_env_def failing_run_env_def rejecting_builder_env_def

lemmas run_defs =
  main_def newSumDBMirrorFromFlags_def sinkFromFlags_def getEntryMetadata_def
  order_by_datetime_desc_def limit_1_def resolve_endID_def resolve_startID_def
  build_and_commit_def assemble_entries_def beamSource_def tree_transform_def
  sink_pipeline_def run_and_commit_def hash_def

section \<open>The stages of a run\<close>

text \<open>
  \<open>main\<close> is a sequence of stages, each of which either ends the process or hands its
  results to the next. The lemmas of this section say what each stage records and
  answers, and \<open>main_cases\<close> lists the seven ways a run can go.
\<close>

lemma main_stages:
  assumes "\<not> (buildVersionList f \<and> incrementalUpdate f)"
    and "newSumDBMirrorFromFlags f w = (t1, Inr sumDB)"
    and "sinkFromFlags f w = (t2, Inr (mapDB, r))"
    and "getEntryMetadata sumDB = (t3, Inr (golden, T))"
  shows "main f w =
     (if T < count f then (t1 @ t2 @ t3, Exited (WantedLeaves (count f) T))
      else (case resolve_startID f mapDB (resolve_endID f T) of
              (t4, Inl x) \<Rightarrow> (t1 @ t2 @ t3 @ t4, Exited x)
            | (t4, Inr (startID, lastMapRev)) \<Rightarrow>
                (case build_and_commit f w sumDB mapDB r golden (resolve_endID f T) startID lastMapRev of
                   (t5, out) \<Rightarrow> (t1 @ t2 @ t3 @ t4 @ t5, out))))"
  using assms by (auto simp add: main_def Let_def)

lemma main_cases [case_names config sumdb mapdb metadata wanted range built]:
  assumes config: "\<lbrakk>buildVersionList f; incrementalUpdate f; main f w = ([], Exited Unsupported)\<rbrakk> \<Longrightarrow> P"
    and sumdb: "\<And>t1 err. \<lbrakk>\<not> (buildVersionList f \<and> incrementalUpdate f);
        newSumDBMirrorFromFlags f w = (t1, Inl err);
        main f w = (t1, Exited (FailedToInitializeSumDB err))\<rbrakk> \<Longrightarrow> P"
    and mapdb: "\<And>t1 sumDB t2 err. \<lbrakk>\<not> (buildVersionList f \<and> incrementalUpdate f);
        newSumDBMirrorFromFlags f w = (t1, Inr sumDB);
        sinkFromFlags f w = (t2, Inl err);
        main f w = (t1 @ t2, Exited (FailedToInitializeMapDB err))\<rbrakk> \<Longrightarrow> P"
    and metadata: "\<And>t1 sumDB t2 mapDB r t3 err. \<lbrakk>\<not> (buildVersionList f \<and> incrementalUpdate f);
        newSumDBMirrorFromFlags f w = (t1, Inr sumDB);
        sinkFromFlags f w = (t2, Inr (mapDB, r));
        getEntryMetadata sumDB = (t3, Inl err);
        main f w = (t1 @ t2 @ t3, Exited (FailedToGetEntryMetadata err))\<rbrakk> \<Longrightarrow> P"
    and wanted: "\<And>t1 sumDB t2 mapDB r t3 golden totalLeaves. \<lbrakk>\<not> (buildVersionList f \<and> incrementalUpdate f);
        newSumDBMirrorFromFlags f w = (t1, Inr sumDB);
        sinkFromFlags f w = (t2, Inr (mapDB, r));
        getEntryMetadata sumDB = (t3, Inr (golden, totalLeaves));
        totalLeaves < count f;
        main f w = (t1 @ t2 @ t3, Exited (WantedLeaves (count f) totalLeaves))\<rbrakk> \<Longrightarrow> P"
    and range: "\<And>t1 sumDB t2 mapDB r t3 golden totalLeaves t4 x. \<lbrakk>\<not> (buildVersionList f \<and> incrementalUpdate f);
        newSumDBMirrorFromFlags f w = (t1, Inr sumDB);
        sinkFromFlags f w = (t2, Inr (mapDB, r));
        getEntryMetadata sumDB = (t3, Inr (golden, totalLeaves));
        \<not> totalLeaves < count f;
        resolve_startID f mapDB (resolve_endID f totalLeaves) = (t4, Inl x);
        main f w = (t1 @ t2 @ t3 @ t4, Exited x)\<rbrakk> \<Longrightarrow> P"
    and built: "\<And>t1 sumDB t2 mapDB r t3 golden totalLeaves t4 startID lastMapRev t5 out.
       \<lbrakk>\<not> (buildVersionList f \<and> incrementalUpdate f);
        newSumDBMirrorFromFlags f w = (t1, Inr sumDB);
        sinkFromFlags f w = (t2, Inr (mapDB, r));
        getEntryMetadata sumDB = (t3, Inr (golden, totalLeaves));
        \<not> totalLeaves < count f;
        resolve_startID f mapDB (resolve_endID f totalLeaves) = (t4, Inr (startID, lastMapRev));
        build_and_commit f w sumDB mapDB r golden (resolve_endID f totalLeaves) startID lastMapRev
          = (t5, out);
        main f w = (t1 @ t2 @ t3 @ t4 @ t5, out)\<rbrakk> \<Longrightarrow> P"
  shows P
proof (cases "buildVersionList f \<and> incrementalUpdate f")
  case True
  then show P using config by (simp add: main_def)
next
  case nc: False
  obtain t1 r1 where s1: "newSumDBMirrorFromFlags f w = (t1, r1)" by force
  show P
  proof (cases r1)
    case (Inl err)
    with s1 nc have "main f w = (t1, Exited (FailedToInitializeSumDB err))"
      by (auto simp: main_def)
    with s1 nc Inl show P by (intro sumdb [of t1 err]) simp_all
  next
    case r1: (Inr sumDB)
    obtain t2 r2 where s2: "sinkFromFlags f w = (t2, r2)" by force
    show P
    proof (cases r2)
      case (Inl err)
      with s1 r1 s2 nc have "main f w = (t1 @ t2, Exited (FailedToInitializeMapDB err))"
        by (auto simp: main_def)
      with s1 r1 s2 nc Inl show P by (intro mapdb [of t1 sumDB t2 err]) simp_all
    next
      case r2: (Inr pr)
      obtain mapDB r where pr: "pr = (mapDB, r)" by force
      obtain t3 r3 where s3: "getEntryMetadata sumDB = (t3, r3)" by force
      show P
      proof (cases r3)
        case (Inl err)
        with s1 r1 s2 r2 pr s3 nc
        have "main f w = (t1 @ t2 @ t3, Exited (FailedToGetEntryMetadata err))"
          by (auto simp: main_def)
        with s1 r1 s2 r2 pr s3 nc Inl show P
          by (intro metadata [of t1 sumDB t2 mapDB r t3 err]) simp_all
      next
        case r3: (Inr gt)
        obtain golden totalLeaves where gt: "gt = (golden, totalLeaves)" by force
        note st = nc s1 [unfolded r1] s2 [unfolded r2 pr] s3 [unfolded r3 gt]
        note eq = main_stages [OF st]
        show P
        proof (cases "totalLeaves < count f")
          case True
          with eq have "main f w = (t1 @ t2 @ t3, Exited (WantedLeaves (count f) totalLeaves))"
            by simp
          with st True show P by (intro wanted [of t1 sumDB t2 mapDB r t3 golden totalLeaves])
        next
          case enough: False
          obtain t4 r4 where s4: "resolve_startID f mapDB (resolve_endID f totalLeaves) = (t4, r4)"
            by force
          show P
          proof (cases r4)
            case (Inl x)
            with eq enough s4 have "main f w = (t1 @ t2 @ t3 @ t4, Exited x)" by simp
            with st enough s4 Inl show P
              by (intro range [of t1 sumDB t2 mapDB r t3 golden totalLeaves t4 x]) simp_all
          next
            case r4: (Inr sl)
            obtain startID lastMapRev where sl: "sl = (startID, lastMapRev)" by force
            obtain t5 out where s5:
              "build_and_commit f w sumDB mapDB r golden (resolve_endID f totalLeaves) startID
                 lastMapRev = (t5, out)" by force
            with eq enough s4 r4 sl have "main f w = (t1 @ t2 @ t3 @ t4 @ t5, out)" by simp
            with st enough s4 r4 sl s5 show P
              by (intro built [of t1 sumDB t2 mapDB r t3 golden totalLeaves t4 startID lastMapRev
                    t5 out]) simp_all
          qed
        qed
      qed
    qed
  qed
qed


lemma newSumDB_trace:
  "newSumDBMirrorFromFlags f w = (t, res) \<Longrightarrow> t = [] \<or> t = [EvSqlOpen (sumDBString f)]"
  by (auto simp: newSumDBMirrorFromFlags_def split: if_splits sum.splits)

lemma newSumDB_Inr:
  "newSumDBMirrorFromFlags f w = (t, Inr m) \<Longrightarrow>
     t = [EvSqlOpen (sumDBString f)] \<and> sql_Open w (sumDBString f) = Inr (db m) \<and>
     dbString m = sumDBString f \<and> sumDBString f \<noteq> []"
  by (auto simp: newSumDBMirrorFromFlags_def split: if_splits sum.splits)

lemma sink_trace:
  "sinkFromFlags f w = (t, res) \<Longrightarrow>
     t = [] \<or> t = [EvNewTileDB (mapDBString f)] \<or> t = [EvNewTileDB (mapDBString f), EvInit] \<or>
     t = [EvNewTileDB (mapDBString f), EvInit, EvNextWriteRevision]"
  by (auto simp: sinkFromFlags_def split: if_splits sum.splits option.splits)

lemma sink_Inr:
  "sinkFromFlags f w = (t, Inr (mapDB, r)) \<Longrightarrow>
     t = [EvNewTileDB (mapDBString f), EvInit, EvNextWriteRevision] \<and>
     mapdb_NewTileDB w (mapDBString f) = Inr mapDB \<and> Init mapDB = None \<and>
     NextWriteRevision mapDB = Inr r \<and> mapDBString f \<noteq> []"
  by (auto simp: sinkFromFlags_def split: if_splits sum.splits option.splits)

lemma latest_checkpoint_none:
  "limit_1 (order_by_datetime_desc rows) = [] \<longleftrightarrow> rows = []"
proof -
  have "(sort_key fst rows = []) = (rows = [])"
    using length_sort [of fst rows] by (metis length_0_conv)
  then show ?thesis
    by (cases "rev (sort_key fst rows)") (simp_all add: limit_1_def order_by_datetime_desc_def)
qed

lemma take_1_Cons: "take 1 xs = a # r \<Longrightarrow> xs \<noteq> [] \<and> a = hd xs \<and> r = []"
  by (cases xs) simp_all

lemma latest_checkpoint:
  assumes "limit_1 (order_by_datetime_desc rows) = row # rest"
  shows "row \<in> set rows \<and> (\<forall>x\<in>set rows. fst x \<le> fst row) \<and> rest = []"
proof -
  let ?s = "sort_key fst rows"
  from assms have ne: "rev ?s \<noteq> []" and hd: "row = hd (rev ?s)" and rest: "rest = []"
    using take_1_Cons [of "rev ?s" row rest] by (simp_all add: limit_1_def order_by_datetime_desc_def)
  from ne hd have last: "row = last ?s" by (simp add: hd_rev)
  from ne have "?s \<noteq> []" by simp
  with last have "row \<in> set ?s" using last_in_set [of ?s] by blast
  then have mem: "row \<in> set rows" by simp
  have srt: "sorted (map fst ?s)" by simp
  have "fst x \<le> fst row" if "x \<in> set rows" for x
  proof -
    from that have "x \<in> set ?s" by simp
    then obtain i where i: "i < length ?s" "?s ! i = x" by (metis in_set_conv_nth)
    have "map fst ?s ! i \<le> map fst ?s ! (length ?s - 1)"
      using srt i(1) by (intro sorted_nth_mono) auto
    with i \<open>?s \<noteq> []\<close> last show ?thesis by (simp add: last_conv_nth)
  qed
  with mem rest show ?thesis by blast
qed

lemma meta_trace:
  "getEntryMetadata m = (t, res) \<Longrightarrow>
     t = [EvQueryCheckpoint] \<or> t = [EvQueryCheckpoint, EvQueryLeafCount]"
  by (auto simp: getEntryMetadata_def Let_def split: option.splits list.splits)

lemma meta_Inr:
  "getEntryMetadata m = (t, Inr (cp, n)) \<Longrightarrow>
     t = [EvQueryCheckpoint, EvQueryLeafCount] \<and> n = int (length (leafMetadata (db m))) \<and>
     checkpointQueryErr (db m) = None \<and> leafCountQueryErr (db m) = None \<and>
     (\<exists>dt. (dt, cp) \<in> set (checkpoints (db m)) \<and> (\<forall>row\<in>set (checkpoints (db m)). fst row \<le> dt))"
proof -
  assume a: "getEntryMetadata m = (t, Inr (cp, n))"
  then obtain row rest where lc: "limit_1 (order_by_datetime_desc (checkpoints (db m))) = row # rest"
    by (cases "limit_1 (order_by_datetime_desc (checkpoints (db m)))")
       (auto simp: getEntryMetadata_def split: option.splits)
  from a lc have rest: "t = [EvQueryCheckpoint, EvQueryLeafCount]"
    "n = int (length (leafMetadata (db m)))" "checkpointQueryErr (db m) = None"
    "leafCountQueryErr (db m) = None" "cp = snd row"
    by (auto simp: getEntryMetadata_def Let_def split: option.splits)
  from latest_checkpoint [OF lc] rest(5)
  have "(fst row, cp) \<in> set (checkpoints (db m)) \<and> (\<forall>x\<in>set (checkpoints (db m)). fst x \<le> fst row)"
    by simp
  with rest show ?thesis by blast
qed

lemma meta_no_checkpoint:
  "checkpoints (db m) = [] \<Longrightarrow>
     getEntryMetadata m =
       (case checkpointQueryErr (db m) of
          Some err \<Rightarrow> ([EvQueryCheckpoint], Inl err)
        | None \<Rightarrow> ([EvQueryCheckpoint], Inl ErrNoRows))"
  using latest_checkpoint_none [of "checkpoints (db m)"]
  by (simp add: getEntryMetadata_def split: option.splits)

lemma start_trace:
  "resolve_startID f mapDB endID = (t, res) \<Longrightarrow>
     (incrementalUpdate f \<and> t = [EvLatestRevision]) \<or> (\<not> incrementalUpdate f \<and> t = [] \<and> res = Inr (0, 0))"
  by (auto simp: resolve_startID_def split: if_splits sum.splits prod.splits)

lemma start_Inl:
  "resolve_startID f mapDB endID = (t, Inl x) \<Longrightarrow>
     incrementalUpdate f \<and> t = [EvLatestRevision] \<and>
     ((\<exists>err. LatestRevision mapDB = Inl err \<and> x = FailedToGetLatestRevision err) \<or>
      (\<exists>lr cp s. LatestRevision mapDB = Inr (lr, cp, s) \<and> s \<ge> endID \<and> x = StartGeEnd s endID))"
  by (auto simp: resolve_startID_def split: if_splits sum.splits prod.splits)

lemma start_Inr:
  "resolve_startID f mapDB endID = (t, Inr (s, lr)) \<Longrightarrow>
     (\<not> incrementalUpdate f \<and> t = [] \<and> s = 0 \<and> lr = 0) \<or>
     (incrementalUpdate f \<and> t = [EvLatestRevision] \<and> s < endID \<and>
      (\<exists>cp. LatestRevision mapDB = Inr (lr, cp, s)))"
  by (auto simp: resolve_startID_def split: if_splits sum.splits prod.splits)

lemma tree_trace:
  "tree_transform f w entries endID startID lastMapRev = (t, res) \<Longrightarrow>
     (incrementalUpdate f \<and>
      t = [EvInfofUpdating lastMapRev startID endID,
           EvBatchmapUpdate (ParDo_tileFromDBRowFn (DatabaseQuery (mapDBString f) (SelectTiles lastMapRev)))
             entries (treeID f) hash (prefixStrata f)]) \<or>
     (\<not> incrementalUpdate f \<and>
      t = [EvInfofCreating endID, EvBatchmapCreate entries (treeID f) hash (prefixStrata f)])"
  by (auto simp: tree_transform_def Let_def split: if_splits)

lemma run_shape:
  "run_and_commit w mapDB r golden endID p = (t, out) \<Longrightarrow>
     (\<exists>err. beamx_Run w p = Some err \<and> t = [EvRun p] \<and> out = Exited (FailedToExecuteJob err)) \<or>
     (beamx_Run w p = None \<and> t = [EvRun p, EvWriteRevision r golden endID] \<and>
      ((\<exists>err. WriteRevision mapDB r golden endID = Some err \<and> out = Exited (FailedToFinalize r err)) \<or>
       (WriteRevision mapDB r golden endID = None \<and> out = Returned)))"
  by (auto simp: run_and_commit_def split: option.splits)

lemma build_shape:
  assumes "build_and_commit f w sumDB mapDB r golden endID startID lastMapRev = (t, out)"
  shows "\<exists>t4 res. tree_transform f w (assemble_entries f sumDB startID endID) endID startID lastMapRev = (t4, res) \<and>
     ((\<exists>err. res = Inl err \<and> t = [EvBeamInit, EvNewPipelineWithRoot] @ t4 \<and>
         out = Exited (FailedToCreatePipeline err)) \<or>
      (\<exists>allTiles t5. res = Inr allTiles \<and>
         run_and_commit w mapDB r golden endID (sink_pipeline f r allTiles) = (t5, out) \<and>
         t = [EvBeamInit, EvNewPipelineWithRoot] @ t4 @ t5))"
  using assms
  by (auto simp: build_and_commit_def Let_def split: prod.splits sum.splits)

lemma newSumDB_events:
  "newSumDBMirrorFromFlags f w = (t, res) \<Longrightarrow> e \<in> set t \<Longrightarrow> e = EvSqlOpen (sumDBString f)"
  using newSumDB_trace [of f w t res] by auto

lemma sink_events:
  "sinkFromFlags f w = (t, res) \<Longrightarrow> e \<in> set t \<Longrightarrow>
     e = EvNewTileDB (mapDBString f) \<or> e = EvInit \<or> e = EvNextWriteRevision"
  using sink_trace [of f w t res] by auto

lemma meta_events:
  "getEntryMetadata m = (t, res) \<Longrightarrow> e \<in> set t \<Longrightarrow> e = EvQueryCheckpoint \<or> e = EvQueryLeafCount"
  using meta_trace [of m t res] by auto

lemma start_events:
  "resolve_startID f mapDB endID = (t, res) \<Longrightarrow> e \<in> set t \<Longrightarrow> e = EvLatestRevision"
  using start_trace [of f mapDB endID t res] by auto

lemma meta_Inl:
  "getEntryMetadata m = (t, Inl err) \<Longrightarrow>
     (t = [EvQueryCheckpoint] \<and>
        (checkpointQueryErr (db m) = Some err \<or>
         (checkpointQueryErr (db m) = None \<and> checkpoints (db m) = [] \<and> err = ErrNoRows))) \<or>
     (t = [EvQueryCheckpoint, EvQueryLeafCount] \<and> checkpointQueryErr (db m) = None \<and>
        checkpoints (db m) \<noteq> [] \<and> leafCountQueryErr (db m) = Some err)"
  using latest_checkpoint_none [of "checkpoints (db m)"]
  by (auto simp: getEntryMetadata_def Let_def split: option.splits list.splits)

text \<open>A run that contains a graph event or a write, or that returns, has passed every stage.\<close>

lemma reached_build:
  assumes "(\<exists>e\<in>set (fst (main f w)). graph_event e \<or> tile_or_revision_write e \<or> tree_call e)
           \<or> snd (main f w) = Returned"
  obtains t1 sumDB t2 mapDB r t3 golden totalLeaves t4 startID lastMapRev t5 out where
    "\<not> (buildVersionList f \<and> incrementalUpdate f)"
    "newSumDBMirrorFromFlags f w = (t1, Inr sumDB)"
    "sinkFromFlags f w = (t2, Inr (mapDB, r))"
    "getEntryMetadata sumDB = (t3, Inr (golden, totalLeaves))"
    "\<not> totalLeaves < count f"
    "resolve_startID f mapDB (resolve_endID f totalLeaves) = (t4, Inr (startID, lastMapRev))"
    "build_and_commit f w sumDB mapDB r golden (resolve_endID f totalLeaves) startID lastMapRev
       = (t5, out)"
    "main f w = (t1 @ t2 @ t3 @ t4 @ t5, out)"
proof (cases rule: main_cases [of f w])
  case config
  with assms show ?thesis by simp
next
  case (sumdb t1 err)
  with assms show ?thesis by (auto dest: newSumDB_events)
next
  case (mapdb t1 sumDB t2 err)
  with assms show ?thesis by (auto dest: newSumDB_events sink_events)
next
  case (metadata t1 sumDB t2 mapDB r t3 err)
  with assms show ?thesis by (auto dest: newSumDB_events sink_events meta_events)
next
  case (wanted t1 sumDB t2 mapDB r t3 golden totalLeaves)
  with assms show ?thesis by (auto dest: newSumDB_events sink_events meta_events)
next
  case (range t1 sumDB t2 mapDB r t3 golden totalLeaves t4 x)
  with assms show ?thesis by (auto dest: newSumDB_events sink_events meta_events start_events)
next
  case (built t1 sumDB t2 mapDB r t3 golden totalLeaves t4 startID lastMapRev t5 out)
  then show ?thesis by (rule that)
qed

lemma build_full:
  assumes "build_and_commit f w sumDB mapDB r golden endID startID lastMapRev = (t, out)"
  shows "\<exists>info call.
     ((incrementalUpdate f \<and> info = EvInfofUpdating lastMapRev startID endID \<and>
       call = EvBatchmapUpdate
                (ParDo_tileFromDBRowFn (DatabaseQuery (mapDBString f) (SelectTiles lastMapRev)))
                (assemble_entries f sumDB startID endID) (treeID f) hash (prefixStrata f)) \<or>
      (\<not> incrementalUpdate f \<and> info = EvInfofCreating endID \<and>
       call = EvBatchmapCreate (assemble_entries f sumDB startID endID) (treeID f) hash
                (prefixStrata f))) \<and>
     ((\<exists>err. t = [EvBeamInit, EvNewPipelineWithRoot, info, call] \<and>
             out = Exited (FailedToCreatePipeline err)) \<or>
      (\<exists>allTiles err.
             t = [EvBeamInit, EvNewPipelineWithRoot, info, call, EvRun (sink_pipeline f r allTiles)] \<and>
             beamx_Run w (sink_pipeline f r allTiles) = Some err \<and>
             out = Exited (FailedToExecuteJob err)) \<or>
      (\<exists>allTiles.
             t = [EvBeamInit, EvNewPipelineWithRoot, info, call, EvRun (sink_pipeline f r allTiles),
                  EvWriteRevision r golden endID] \<and>
             beamx_Run w (sink_pipeline f r allTiles) = None \<and>
             ((\<exists>err. WriteRevision mapDB r golden endID = Some err \<and>
                     out = Exited (FailedToFinalize r err)) \<or>
              (WriteRevision mapDB r golden endID = None \<and> out = Returned))))"
proof -
  from build_shape [OF assms] obtain t4 res where
    tt: "tree_transform f w (assemble_entries f sumDB startID endID) endID startID lastMapRev = (t4, res)"
    and alt: "(\<exists>err. res = Inl err \<and> t = [EvBeamInit, EvNewPipelineWithRoot] @ t4 \<and>
         out = Exited (FailedToCreatePipeline err)) \<or>
      (\<exists>allTiles t5. res = Inr allTiles \<and>
         run_and_commit w mapDB r golden endID (sink_pipeline f r allTiles) = (t5, out) \<and>
         t = [EvBeamInit, EvNewPipelineWithRoot] @ t4 @ t5)"
    by blast
  note t4 = tree_trace [OF tt]
  from alt show ?thesis
  proof
    assume "\<exists>err. res = Inl err \<and> t = [EvBeamInit, EvNewPipelineWithRoot] @ t4 \<and>
         out = Exited (FailedToCreatePipeline err)"
    with t4 show ?thesis by auto
  next
    assume "\<exists>allTiles t5. res = Inr allTiles \<and>
         run_and_commit w mapDB r golden endID (sink_pipeline f r allTiles) = (t5, out) \<and>
         t = [EvBeamInit, EvNewPipelineWithRoot] @ t4 @ t5"
    then obtain allTiles t5 where r:
      "run_and_commit w mapDB r golden endID (sink_pipeline f r allTiles) = (t5, out)"
      "t = [EvBeamInit, EvNewPipelineWithRoot] @ t4 @ t5" by blast
    from run_shape [OF r(1)] r(2) t4 show ?thesis by auto
  qed
qed

lemma prefix_events_plain:
  assumes "newSumDBMirrorFromFlags f w = (t1, r1)" "sinkFromFlags f w = (t2, r2)"
    "getEntryMetadata m = (t3, r3)" "resolve_startID f mapDB endID = (t4, r4)"
    "e \<in> set (t1 @ t2 @ t3 @ t4)"
  shows "\<not> graph_event e \<and> \<not> tile_or_revision_write e \<and> \<not> tree_call e \<and> \<not> revision_write e"
  using assms
  by (auto dest: newSumDB_events sink_events meta_events start_events)

lemma before_in_prefix:
  assumes "xs @ ys = pre @ e # post" and "e \<notin> set xs"
  shows "set xs \<subseteq> set pre"
  using assms
  by (auto simp: append_eq_append_conv2 append_eq_Cons_conv)

lemma count_update_stages:
  "newSumDBMirrorFromFlags (f\<lparr>count := c\<rparr>) w = newSumDBMirrorFromFlags f w"
  "sinkFromFlags (f\<lparr>count := c\<rparr>) w = sinkFromFlags f w"
  "resolve_startID (f\<lparr>count := c\<rparr>) mapDB endID = resolve_startID f mapDB endID"
  "build_and_commit (f\<lparr>count := c\<rparr>) w sumDB mapDB r golden endID startID lastMapRev
     = build_and_commit f w sumDB mapDB r golden endID startID lastMapRev"
  by (simp_all add: newSumDBMirrorFromFlags_def sinkFromFlags_def resolve_startID_def
        build_and_commit_def assemble_entries_def tree_transform_def sink_pipeline_def Let_def
      cong: sum.case_cong option.case_cong prod.case_cong if_cong)

lemma main_unbounded:
  assumes neg: "count f < 0"
    and nc: "\<not> (buildVersionList f \<and> incrementalUpdate f)"
    and st: "newSumDBMirrorFromFlags f w = (t1, Inr sumDB)"
      "sinkFromFlags f w = (t2, Inr (mapDB, r))"
      "getEntryMetadata sumDB = (t3, Inr (golden, T))"
  shows "main f w =
     (case resolve_startID f mapDB T of
        (t4, Inl x) \<Rightarrow> (t1 @ t2 @ t3 @ t4, Exited x)
      | (t4, Inr (startID, lastMapRev)) \<Rightarrow>
          (case build_and_commit f w sumDB mapDB r golden T startID lastMapRev of
             (t5, out) \<Rightarrow> (t1 @ t2 @ t3 @ t4 @ t5, out)))"
proof -
  from meta_Inr [OF st(3)] have "0 \<le> T" by simp
  with neg have "\<not> T < count f" "resolve_endID f T = T" by (simp_all add: resolve_endID_def)
  with main_stages [OF nc st] show ?thesis by simp
qed

lemma build_full_mode:
  assumes "\<not> incrementalUpdate f"
  shows "build_and_commit f w sumDB mapDB r golden endID startID lastMapRev =
     (let entries = assemble_entries f sumDB startID endID;
          pre = [EvBeamInit, EvNewPipelineWithRoot, EvInfofCreating endID,
                 EvBatchmapCreate entries (treeID f) hash (prefixStrata f)]
      in case batchmap_Create w entries (treeID f) hash (prefixStrata f) of
           Some err \<Rightarrow> (pre, Exited (FailedToCreatePipeline err))
         | None \<Rightarrow>
             (case run_and_commit w mapDB r golden endID
                     (sink_pipeline f r (BatchmapCreate entries (treeID f) hash (prefixStrata f))) of
                (t', out) \<Rightarrow> (pre @ t', out)))"
  using assms
  by (simp add: build_and_commit_def tree_transform_def Let_def split: option.splits prod.splits)

lemma assemble_entries_no_tiles: "\<not> reads_tiles (assemble_entries f sumDB startID endID)"
  by (simp add: assemble_entries_def beamSource_def Let_def)

lemma prefix_no_tree_call:
  assumes "newSumDBMirrorFromFlags f w = (t1, r1)" "sinkFromFlags f w = (t2, r2)"
    "getEntryMetadata m = (t3, r3)" "resolve_startID f mapDB endID = (t4, r4)"
  shows "filter tree_call (t1 @ t2 @ t3 @ t4) = []"
proof -
  have "\<forall>e\<in>set (t1 @ t2 @ t3 @ t4). \<not> tree_call e"
    using prefix_events_plain [OF assms] by blast
  then show ?thesis by (simp only: filter_empty_conv)
qed

lemma parDo_revision:
  "parDo (ProcessElement marshal \<lparr>fn_Revision = r\<rparr>) ts = Inr rows \<Longrightarrow>
     \<forall>row\<in>set rows. Revision row = r"
proof (induction ts arbitrary: rows)
  case Nil
  then show ?case by simp
next
  case (Cons t ts)
  then show ?case
    by (auto simp: ProcessElement_def split: sum.splits)
qed

lemma build_exact:
  assumes b: "build_and_commit f w sumDB mapDB r golden endID startID lastMapRev = (t5, out)"
  shows "\<exists>info call allTiles answer.
     ((incrementalUpdate f \<and> info = EvInfofUpdating lastMapRev startID endID \<and>
       call = EvBatchmapUpdate
                (ParDo_tileFromDBRowFn (DatabaseQuery (mapDBString f) (SelectTiles lastMapRev)))
                (assemble_entries f sumDB startID endID) (treeID f) hash (prefixStrata f) \<and>
       allTiles = BatchmapUpdate
                (ParDo_tileFromDBRowFn (DatabaseQuery (mapDBString f) (SelectTiles lastMapRev)))
                (assemble_entries f sumDB startID endID) (treeID f) hash (prefixStrata f) \<and>
       answer = batchmap_Update w
                (ParDo_tileFromDBRowFn (DatabaseQuery (mapDBString f) (SelectTiles lastMapRev)))
                (assemble_entries f sumDB startID endID) (treeID f) hash (prefixStrata f)) \<or>
      (\<not> incrementalUpdate f \<and> info = EvInfofCreating endID \<and>
       call = EvBatchmapCreate (assemble_entries f sumDB startID endID) (treeID f) hash
                (prefixStrata f) \<and>
       allTiles = BatchmapCreate (assemble_entries f sumDB startID endID) (treeID f) hash
                (prefixStrata f) \<and>
       answer = batchmap_Create w (assemble_entries f sumDB startID endID) (treeID f) hash
                (prefixStrata f))) \<and>
     ((\<exists>err. answer = Some err \<and> t5 = [EvBeamInit, EvNewPipelineWithRoot, info, call] \<and>
             out = Exited (FailedToCreatePipeline err)) \<or>
      (answer = None \<and>
       (t5 = [EvBeamInit, EvNewPipelineWithRoot, info, call, EvRun (sink_pipeline f r allTiles)] \<or>
        t5 = [EvBeamInit, EvNewPipelineWithRoot, info, call, EvRun (sink_pipeline f r allTiles),
              EvWriteRevision r golden endID])))"
proof (cases "incrementalUpdate f")
  case True
  with b show ?thesis
    by (auto simp: build_and_commit_def tree_transform_def run_and_commit_def Let_def
          split: option.splits)
next
  case False
  with b show ?thesis
    by (auto simp: build_and_commit_def tree_transform_def run_and_commit_def Let_def
          split: option.splits)
qed

section \<open>Properties of the build\<close>

text \<open>
  C4. When both \<open>incremental_update\<close> and \<open>build_version_list\<close> are set, the run ends
  with the fatal error of line 64 whatever the other flags and the stores are, and it
  has made no call to the outside before: neither store was opened or read.
\<close>

theorem flag_conflict_fatal_before_io:
  "buildVersionList f \<Longrightarrow> incrementalUpdate f \<Longrightarrow> main f w = ([], Exited Unsupported)"
  by (simp add: main_def)

theorem flag_conflict_fatal_before_io_witness:
  "main (sample_flags\<lparr>incrementalUpdate := True, buildVersionList := True\<rparr>)
        (sample_env sample_mirror sample_tiledb) = ([], Exited Unsupported)"
  using flag_conflict_fatal_before_io
    [of "sample_flags\<lparr>incrementalUpdate := True, buildVersionList := True\<rparr>"
        "sample_env sample_mirror sample_tiledb"]
  by (simp add: sample_flags_def)

text \<open>
  C6. Let the mirror that the run opens hold fewer entries than the bounded cap
  \<open>count\<close>. Then the run ends with a fatal error, and nothing in it constructs or runs
  a dataflow graph or writes a tile or a revision. When the run got as far as reading
  the entry count, it is exactly the six calls up to that read, and the error is the one
  of line 82, insufficient entries.
\<close>

theorem insufficient_entries_fatal:
  assumes op: "sql_Open w (sumDBString f) = Inr d"
    and less: "int (length (leafMetadata d)) < count f"
  shows "(\<exists>x. snd (main f w) = Exited x) \<and>
         (\<forall>e\<in>set (fst (main f w)). \<not> graph_event e \<and> \<not> tile_or_revision_write e) \<and>
         (EvQueryLeafCount \<in> set (fst (main f w)) \<and> leafCountQueryErr d = None \<longrightarrow>
            main f w =
              ([EvSqlOpen (sumDBString f), EvNewTileDB (mapDBString f), EvInit, EvNextWriteRevision,
                EvQueryCheckpoint, EvQueryLeafCount],
               Exited (WantedLeaves (count f) (int (length (leafMetadata d))))))"
proof -
  have never: False
    if "(\<exists>e\<in>set (fst (main f w)). graph_event e \<or> tile_or_revision_write e \<or> tree_call e)
           \<or> snd (main f w) = Returned"
    using that
  proof (rule reached_build)
    fix t1 sumDB t3 golden totalLeaves
    assume a: "newSumDBMirrorFromFlags f w = (t1, Inr sumDB)"
      "getEntryMetadata sumDB = (t3, Inr (golden, totalLeaves))" "\<not> totalLeaves < count f"
    from newSumDB_Inr [OF a(1)] op have "db sumDB = d" by simp
    with meta_Inr [OF a(2)] a(3) less show False by simp
  qed
  have 1: "\<exists>x. snd (main f w) = Exited x"
    using never by (cases "snd (main f w)") auto
  have 2: "\<forall>e\<in>set (fst (main f w)). \<not> graph_event e \<and> \<not> tile_or_revision_write e"
    using never by blast
  have 3: "main f w =
              ([EvSqlOpen (sumDBString f), EvNewTileDB (mapDBString f), EvInit, EvNextWriteRevision,
                EvQueryCheckpoint, EvQueryLeafCount],
               Exited (WantedLeaves (count f) (int (length (leafMetadata d)))))"
    if q: "EvQueryLeafCount \<in> set (fst (main f w))" and ok: "leafCountQueryErr d = None"
  proof (cases rule: main_cases [of f w])
    case config
    with q show ?thesis by simp
  next
    case (sumdb t1 err)
    with q show ?thesis by (auto dest: newSumDB_events)
  next
    case (mapdb t1 sumDB t2 err)
    with q show ?thesis by (auto dest: newSumDB_events sink_events)
  next
    case (metadata t1 sumDB t2 mapDB r t3 err)
    from newSumDB_Inr [OF metadata(2)] op have d: "db sumDB = d" by simp
    from metadata(5) q have "EvQueryLeafCount \<in> set t3"
      using metadata(2,3) by (auto dest: newSumDB_events sink_events)
    with meta_Inl [OF metadata(4)] d ok show ?thesis by auto
  next
    case (wanted t1 sumDB t2 mapDB r t3 golden totalLeaves)
    from newSumDB_Inr [OF wanted(2)] op have d: "db sumDB = d" and t1: "t1 = [EvSqlOpen (sumDBString f)]"
      by simp_all
    from sink_Inr [OF wanted(3)] have t2: "t2 = [EvNewTileDB (mapDBString f), EvInit, EvNextWriteRevision]"
      by simp
    from meta_Inr [OF wanted(4)] d have "t3 = [EvQueryCheckpoint, EvQueryLeafCount]"
      "totalLeaves = int (length (leafMetadata d))" by simp_all
    with wanted(6) t1 t2 show ?thesis by simp
  next
    case (range t1 sumDB t2 mapDB r t3 golden totalLeaves t4 x)
    from newSumDB_Inr [OF range(2)] op have "db sumDB = d" by simp
    with meta_Inr [OF range(4)] range(5) less show ?thesis by simp
  next
    case (built t1 sumDB t2 mapDB r t3 golden totalLeaves t4 startID lastMapRev t5 out)
    from newSumDB_Inr [OF built(2)] op have "db sumDB = d" by simp
    with meta_Inr [OF built(4)] built(5) less show ?thesis by simp
  qed
  from 1 2 3 show ?thesis by blast
qed

theorem insufficient_entries_fatal_witness:
  "sql_Open (sample_env sample_mirror fresh_tiledb) (sumDBString (sample_flags\<lparr>count := 2000\<rparr>))
     = Inr sample_mirror \<and>
   int (length (leafMetadata sample_mirror)) < count (sample_flags\<lparr>count := 2000\<rparr>) \<and>
   main (sample_flags\<lparr>count := 2000\<rparr>) (sample_env sample_mirror fresh_tiledb) =
     ([EvSqlOpen ''sum.db'', EvNewTileDB ''map.db'', EvInit, EvNextWriteRevision,
       EvQueryCheckpoint, EvQueryLeafCount],
      Exited (WantedLeaves 2000 3))"
proof -
  let ?f = "sample_flags\<lparr>count := 2000\<rparr>" and ?w = "sample_env sample_mirror fresh_tiledb"
  have h1: "sql_Open ?w (sumDBString ?f) = Inr sample_mirror"
    by (simp add: sample_env_def)
  have h2: "int (length (leafMetadata sample_mirror)) < count ?f"
    by (simp add: sample_mirror_def)
  have h3: "EvQueryLeafCount \<in> set (fst (main ?f ?w))"
    by (simp add: run_defs sample_defs Let_def)
  have h4: "leafCountQueryErr sample_mirror = None"
    by (simp add: sample_mirror_def)
  from insufficient_entries_fatal [OF h1 h2] h3 h4
  have "main ?f ?w =
     ([EvSqlOpen (sumDBString ?f), EvNewTileDB (mapDBString ?f), EvInit, EvNextWriteRevision,
       EvQueryCheckpoint, EvQueryLeafCount],
      Exited (WantedLeaves (count ?f) (int (length (leafMetadata sample_mirror)))))"
    by blast
  then have "main ?f ?w =
     ([EvSqlOpen ''sum.db'', EvNewTileDB ''map.db'', EvInit, EvNextWriteRevision,
       EvQueryCheckpoint, EvQueryLeafCount],
      Exited (WantedLeaves 2000 3))"
    by (simp add: sample_flags_def sample_mirror_def)
  with h1 h2 show ?thesis by blast
qed

text \<open>
  C2. A call of \<open>WriteRevision\<close> in a run is the last call of the run. The call just
  before it is the run of the graph whose sink writes the tiles of that revision, and
  that run succeeded; no earlier call writes a tile or a revision. Its arguments are
  the revision number that \<open>sinkFromFlags\<close> allocated, the checkpoint that
  \<open>getEntryMetadata\<close> read, and \<open>endID\<close>. When the run of the graph fails, the process
  ends with the fatal error of line 134 and the run has no call of \<open>WriteRevision\<close>.
\<close>

theorem commit_after_successful_run:
  "(\<forall>r g e. EvWriteRevision r g e \<in> set (fst (main f w)) \<longrightarrow>
      (\<exists>pre allTiles t1 sumDB t2 mapDB t3 totalLeaves.
          fst (main f w) = pre @ [EvRun (sink_pipeline f r allTiles), EvWriteRevision r g e] \<and>
          (\<forall>x\<in>set pre. \<not> tile_or_revision_write x) \<and>
          beamx_Run w (sink_pipeline f r allTiles) = None \<and>
          newSumDBMirrorFromFlags f w = (t1, Inr sumDB) \<and>
          sinkFromFlags f w = (t2, Inr (mapDB, r)) \<and>
          getEntryMetadata sumDB = (t3, Inr (g, totalLeaves)) \<and>
          e = resolve_endID f totalLeaves)) \<and>
   (\<forall>p err. EvRun p \<in> set (fst (main f w)) \<and> beamx_Run w p = Some err \<longrightarrow>
      (\<forall>x\<in>set (fst (main f w)). \<not> revision_write x) \<and>
      snd (main f w) = Exited (FailedToExecuteJob err))"
proof (rule conjI; intro allI impI)
  fix r' g e
  assume wr: "EvWriteRevision r' g e \<in> set (fst (main f w))"
  then have "(\<exists>e\<in>set (fst (main f w)). graph_event e \<or> tile_or_revision_write e \<or> tree_call e)
           \<or> snd (main f w) = Returned" by force
  then show "\<exists>pre allTiles t1 sumDB t2 mapDB t3 totalLeaves.
          fst (main f w) = pre @ [EvRun (sink_pipeline f r' allTiles), EvWriteRevision r' g e] \<and>
          (\<forall>x\<in>set pre. \<not> tile_or_revision_write x) \<and>
          beamx_Run w (sink_pipeline f r' allTiles) = None \<and>
          newSumDBMirrorFromFlags f w = (t1, Inr sumDB) \<and>
          sinkFromFlags f w = (t2, Inr (mapDB, r')) \<and>
          getEntryMetadata sumDB = (t3, Inr (g, totalLeaves)) \<and>
          e = resolve_endID f totalLeaves"
  proof (rule reached_build)
    fix t1 sumDB t2 mapDB r t3 golden totalLeaves t4 startID lastMapRev t5 out
    assume st: "newSumDBMirrorFromFlags f w = (t1, Inr sumDB)"
      "sinkFromFlags f w = (t2, Inr (mapDB, r))"
      "getEntryMetadata sumDB = (t3, Inr (golden, totalLeaves))"
      "resolve_startID f mapDB (resolve_endID f totalLeaves) = (t4, Inr (startID, lastMapRev))"
      and b: "build_and_commit f w sumDB mapDB r golden (resolve_endID f totalLeaves) startID
                lastMapRev = (t5, out)"
      and m: "main f w = (t1 @ t2 @ t3 @ t4 @ t5, out)"
    let ?E = "resolve_endID f totalLeaves"
    have plain: "\<forall>x\<in>set (t1 @ t2 @ t3 @ t4). \<not> tile_or_revision_write x"
      using prefix_events_plain [OF st(1,2,3,4)] by blast
    have "EvWriteRevision r' g e \<notin> set (t1 @ t2 @ t3 @ t4)"
    proof
      assume "EvWriteRevision r' g e \<in> set (t1 @ t2 @ t3 @ t4)"
      with plain have "\<not> tile_or_revision_write (EvWriteRevision r' g e)" by blast
      then show False by simp
    qed
    with wr m have in5: "EvWriteRevision r' g e \<in> set t5" by auto
    from build_full [OF b] in5 obtain info call allTiles where
      t5: "t5 = [EvBeamInit, EvNewPipelineWithRoot, info, call, EvRun (sink_pipeline f r allTiles),
                  EvWriteRevision r golden ?E]"
      and run: "beamx_Run w (sink_pipeline f r allTiles) = None"
      and info: "\<not> tile_or_revision_write info" and call: "\<not> tile_or_revision_write call"
      by auto
    from in5 t5 info call have eq: "r' = r" "g = golden" "e = ?E" by auto
    let ?pre = "t1 @ t2 @ t3 @ t4 @ [EvBeamInit, EvNewPipelineWithRoot, info, call]"
    have "fst (main f w) = ?pre @ [EvRun (sink_pipeline f r' allTiles), EvWriteRevision r' g e]"
      using m t5 eq by simp
    moreover have "\<forall>x\<in>set ?pre. \<not> tile_or_revision_write x"
      using plain info call by auto
    ultimately show ?thesis using run st eq by blast
  qed
next
  fix p err
  assume a: "EvRun p \<in> set (fst (main f w)) \<and> beamx_Run w p = Some err"
  then have "(\<exists>e\<in>set (fst (main f w)). graph_event e \<or> tile_or_revision_write e \<or> tree_call e)
           \<or> snd (main f w) = Returned" by force
  then show "(\<forall>x\<in>set (fst (main f w)). \<not> revision_write x) \<and>
      snd (main f w) = Exited (FailedToExecuteJob err)"
  proof (rule reached_build)
    fix t1 sumDB t2 mapDB r t3 golden totalLeaves t4 startID lastMapRev t5 out
    assume st: "newSumDBMirrorFromFlags f w = (t1, Inr sumDB)"
      "sinkFromFlags f w = (t2, Inr (mapDB, r))"
      "getEntryMetadata sumDB = (t3, Inr (golden, totalLeaves))"
      "resolve_startID f mapDB (resolve_endID f totalLeaves) = (t4, Inr (startID, lastMapRev))"
      and b: "build_and_commit f w sumDB mapDB r golden (resolve_endID f totalLeaves) startID
                lastMapRev = (t5, out)"
      and m: "main f w = (t1 @ t2 @ t3 @ t4 @ t5, out)"
    have plain: "\<forall>x\<in>set (t1 @ t2 @ t3 @ t4). \<not> graph_event x \<and> \<not> revision_write x"
      using prefix_events_plain [OF st(1,2,3,4)] by blast
    have "EvRun p \<notin> set (t1 @ t2 @ t3 @ t4)"
    proof
      assume "EvRun p \<in> set (t1 @ t2 @ t3 @ t4)"
      with plain have "\<not> graph_event (EvRun p)" by blast
      then show False by simp
    qed
    with a m have in5: "EvRun p \<in> set t5" by auto
    from build_full [OF b] in5 a
    have "(\<forall>x\<in>set t5. \<not> revision_write x) \<and> out = Exited (FailedToExecuteJob err)"
      by auto
    with plain m show ?thesis by auto
  qed
qed

theorem commit_after_successful_run_witness:
  "EvWriteRevision 0 [3] 3 \<in> set (fst (main sample_flags (sample_env sample_mirror fresh_tiledb))) \<and>
   (\<exists>pre allTiles.
      fst (main sample_flags (sample_env sample_mirror fresh_tiledb)) =
        pre @ [EvRun (sink_pipeline sample_flags 0 allTiles), EvWriteRevision 0 [3] 3] \<and>
      (\<forall>x\<in>set pre. \<not> tile_or_revision_write x)) \<and>
   snd (main sample_flags (failing_run_env sample_mirror fresh_tiledb)) =
     Exited (FailedToExecuteJob (External ''transform failed'')) \<and>
   filter revision_write (fst (main sample_flags (failing_run_env sample_mirror fresh_tiledb))) = []"
proof -
  let ?w = "sample_env sample_mirror fresh_tiledb" and ?v = "failing_run_env sample_mirror fresh_tiledb"
  let ?p = "WriteWithBatchSize 250 ''map.db'' ''tiles''
      (ParDo_tileToDBRowFn \<lparr>fn_Revision = 0\<rparr>
         (BatchmapCreate (CreateEntries 12345 (DatabaseQuery ''sum.db'' (SelectLeafMetadata 0 3)))
            12345 SHA512_256 2))"
  have h: "EvWriteRevision 0 [3] 3 \<in> set (fst (main sample_flags ?w))"
    by (simp add: run_defs sample_defs Let_def)
  from commit_after_successful_run [of sample_flags ?w] h
  have a: "\<exists>pre allTiles.
      fst (main sample_flags ?w) =
        pre @ [EvRun (sink_pipeline sample_flags 0 allTiles), EvWriteRevision 0 [3] 3] \<and>
      (\<forall>x\<in>set pre. \<not> tile_or_revision_write x)"
    by blast
  have k: "EvRun ?p \<in> set (fst (main sample_flags ?v)) \<and>
      beamx_Run ?v ?p = Some (External ''transform failed'')"
    by (simp add: run_defs sample_defs Let_def)
  from commit_after_successful_run [of sample_flags ?v] k
  have b: "(\<forall>x\<in>set (fst (main sample_flags ?v)). \<not> revision_write x) \<and>
      snd (main sample_flags ?v) = Exited (FailedToExecuteJob (External ''transform failed''))"
    by blast
  then have "filter revision_write (fst (main sample_flags ?v)) = []"
    by (simp only: filter_empty_conv) blast
  with h a b show ?thesis by blast
qed

text \<open>
  C1. Full mode, with the stores open and the metadata read: \<open>T\<close> entries are
  available and the cap \<open>count\<close> is at most \<open>T\<close>. Then \<open>T\<close> is not negative, the range
  is resolved to \<open>startID = 0\<close> and \<open>endID = count\<close> for a bounded cap, \<open>endID = T\<close>
  for an unbounded one, and the run goes on to assemble the graph over that range with
  \<open>batchmap.Create\<close>, to run it and to finalize the revision with \<open>endID\<close>; it ends
  fatally only when one of these three library calls fails. With \<open>T = 0\<close> the range is
  \<open>[0, 0)\<close>, which selects no entry: the tree is built from no leaves.
\<close>

theorem full_mode_range:
  assumes full: "\<not> incrementalUpdate f"
    and st: "newSumDBMirrorFromFlags f w = (t1, Inr sumDB)"
      "sinkFromFlags f w = (t2, Inr (mapDB, r))"
      "getEntryMetadata sumDB = (t3, Inr (golden, T))"
    and le: "count f \<le> T"
  shows "0 \<le> T \<and>
    (let endID = (if count f < 0 then T else count f);
         startID = 0;
         records = DatabaseQuery (sumDBString f) (SelectLeafMetadata startID endID);
         entries = (if buildVersionList f
                    then Flatten (CreateEntries (treeID f) records) (MakeVersionList records)
                    else CreateEntries (treeID f) records);
         allTiles = BatchmapCreate entries (treeID f) hash (prefixStrata f);
         p = WriteWithBatchSize (batchSize f) (mapDBString f) ''tiles''
               (ParDo_tileToDBRowFn \<lparr>fn_Revision = r\<rparr> allTiles);
         pre = t1 @ t2 @ t3 @
               [EvBeamInit, EvNewPipelineWithRoot, EvInfofCreating endID,
                EvBatchmapCreate entries (treeID f) hash (prefixStrata f)]
     in main f w =
          (case batchmap_Create w entries (treeID f) hash (prefixStrata f) of
             Some err \<Rightarrow> (pre, Exited (FailedToCreatePipeline err))
           | None \<Rightarrow>
               (case beamx_Run w p of
                  Some err \<Rightarrow> (pre @ [EvRun p], Exited (FailedToExecuteJob err))
                | None \<Rightarrow>
                    (case WriteRevision mapDB r golden endID of
                       Some err \<Rightarrow>
                         (pre @ [EvRun p, EvWriteRevision r golden endID],
                          Exited (FailedToFinalize r err))
                     | None \<Rightarrow> (pre @ [EvRun p, EvWriteRevision r golden endID], Returned)))) \<and>
        (T = 0 \<longrightarrow> endID = 0 \<and>
           select_leafMetadata (leafMetadata (db sumDB)) startID endID = []))"
proof -
  from meta_Inr [OF st(3)] have T: "0 \<le> T" "T = int (length (leafMetadata (db sumDB)))" by simp_all
  from newSumDB_Inr [OF st(1)] have s: "dbString sumDB = sumDBString f" by simp
  from full have nc: "\<not> (buildVersionList f \<and> incrementalUpdate f)" by simp
  from le have enough: "\<not> T < count f" by simp
  have start: "resolve_startID f mapDB e = ([], Inr (0, 0))" for e
    using full by (simp add: resolve_startID_def)
  have m: "main f w =
     (case build_and_commit f w sumDB mapDB r golden (resolve_endID f T) 0 0 of
        (t5, out) \<Rightarrow> (t1 @ t2 @ t3 @ t5, out))"
    using main_stages [OF nc st] enough start by simp
  let ?E = "if count f < 0 then T else count f"
  have E: "resolve_endID f T = ?E" by (simp add: resolve_endID_def)
  have zero: "?E = 0 \<and> select_leafMetadata (leafMetadata (db sumDB)) 0 ?E = []" if "T = 0"
  proof -
    from that le have "?E = 0" by simp
    moreover from that T(2) have "leafMetadata (db sumDB) = []" by simp
    ultimately show ?thesis by (simp add: select_leafMetadata_def)
  qed
  have run: "main f w =
     (let entries = assemble_entries f sumDB 0 ?E;
          pre = [EvBeamInit, EvNewPipelineWithRoot, EvInfofCreating ?E,
                 EvBatchmapCreate entries (treeID f) hash (prefixStrata f)]
      in case batchmap_Create w entries (treeID f) hash (prefixStrata f) of
           Some err \<Rightarrow> (t1 @ t2 @ t3 @ pre, Exited (FailedToCreatePipeline err))
         | None \<Rightarrow>
             (case run_and_commit w mapDB r golden ?E
                     (sink_pipeline f r (BatchmapCreate entries (treeID f) hash (prefixStrata f))) of
                (t', out) \<Rightarrow> (t1 @ t2 @ t3 @ pre @ t', out)))"
    unfolding m E build_full_mode [OF full] by (simp add: Let_def split: option.splits prod.splits)
  have ae: "assemble_entries f sumDB 0 ?E =
      (if buildVersionList f
       then Flatten (CreateEntries (treeID f) (DatabaseQuery (sumDBString f) (SelectLeafMetadata 0 ?E)))
              (MakeVersionList (DatabaseQuery (sumDBString f) (SelectLeafMetadata 0 ?E)))
       else CreateEntries (treeID f) (DatabaseQuery (sumDBString f) (SelectLeafMetadata 0 ?E)))"
    by (simp add: assemble_entries_def beamSource_def s Let_def)
  let ?entries = "if buildVersionList f
       then Flatten (CreateEntries (treeID f) (DatabaseQuery (sumDBString f) (SelectLeafMetadata 0 ?E)))
              (MakeVersionList (DatabaseQuery (sumDBString f) (SelectLeafMetadata 0 ?E)))
       else CreateEntries (treeID f) (DatabaseQuery (sumDBString f) (SelectLeafMetadata 0 ?E))"
  let ?p = "WriteWithBatchSize (batchSize f) (mapDBString f) ''tiles''
               (ParDo_tileToDBRowFn \<lparr>fn_Revision = r\<rparr>
                  (BatchmapCreate ?entries (treeID f) hash (prefixStrata f)))"
  let ?pre = "t1 @ t2 @ t3 @
               [EvBeamInit, EvNewPipelineWithRoot, EvInfofCreating ?E,
                EvBatchmapCreate ?entries (treeID f) hash (prefixStrata f)]"
  have main: "main f w =
          (case batchmap_Create w ?entries (treeID f) hash (prefixStrata f) of
             Some err \<Rightarrow> (?pre, Exited (FailedToCreatePipeline err))
           | None \<Rightarrow>
               (case beamx_Run w ?p of
                  Some err \<Rightarrow> (?pre @ [EvRun ?p], Exited (FailedToExecuteJob err))
                | None \<Rightarrow>
                    (case WriteRevision mapDB r golden ?E of
                       Some err \<Rightarrow>
                         (?pre @ [EvRun ?p, EvWriteRevision r golden ?E],
                          Exited (FailedToFinalize r err))
                     | None \<Rightarrow> (?pre @ [EvRun ?p, EvWriteRevision r golden ?E], Returned))))"
    unfolding run ae
    by (simp add: Let_def run_and_commit_def sink_pipeline_def split: option.splits)
  from T(1) main zero show ?thesis unfolding Let_def by blast
qed

theorem full_mode_range_witness:
  "main sample_flags (sample_env no_entries_mirror fresh_tiledb) =
     ([EvSqlOpen ''sum.db'', EvNewTileDB ''map.db'', EvInit, EvNextWriteRevision,
       EvQueryCheckpoint, EvQueryLeafCount, EvBeamInit, EvNewPipelineWithRoot,
       EvInfofCreating 0,
       EvBatchmapCreate (CreateEntries 12345 (DatabaseQuery ''sum.db'' (SelectLeafMetadata 0 0)))
         12345 SHA512_256 2,
       EvRun (WriteWithBatchSize 250 ''map.db'' ''tiles''
                (ParDo_tileToDBRowFn \<lparr>fn_Revision = 0\<rparr>
                   (BatchmapCreate
                      (CreateEntries 12345 (DatabaseQuery ''sum.db'' (SelectLeafMetadata 0 0)))
                      12345 SHA512_256 2))),
       EvWriteRevision 0 [1] 0],
      Returned) \<and>
   select_leafMetadata (leafMetadata no_entries_mirror) 0 0 = []"
proof -
  let ?f = sample_flags and ?w = "sample_env no_entries_mirror fresh_tiledb"
  have full: "\<not> incrementalUpdate ?f" by (simp add: sample_flags_def)
  have s1: "newSumDBMirrorFromFlags ?f ?w =
      ([EvSqlOpen ''sum.db''], Inr \<lparr>dbString = ''sum.db'', db = no_entries_mirror\<rparr>)"
    by (simp add: newSumDBMirrorFromFlags_def sample_flags_def sample_env_def)
  have s2: "sinkFromFlags ?f ?w =
      ([EvNewTileDB ''map.db'', EvInit, EvNextWriteRevision], Inr (fresh_tiledb, 0))"
    by (simp add: sinkFromFlags_def sample_flags_def sample_env_def fresh_tiledb_def)
  have s3: "getEntryMetadata \<lparr>dbString = ''sum.db'', db = no_entries_mirror\<rparr> =
      ([EvQueryCheckpoint, EvQueryLeafCount], Inr ([1], 0))"
    by (simp add: getEntryMetadata_def order_by_datetime_desc_def limit_1_def
          no_entries_mirror_def)
  have le: "count ?f \<le> 0" by (simp add: sample_flags_def)
  from full_mode_range [OF full s1 s2 s3 le] show ?thesis
    by (simp add: Let_def sample_flags_def sample_env_def fresh_tiledb_def hash_def)
qed

text \<open>
  C3. Incremental mode, with the stores open, the metadata read and enough entries for
  the cap. The run asks the tile database for its latest revision. When that call
  answers an error the run ends there with the fatal error of line 99. When it answers
  revision \<open>lastRev\<close> covering \<open>covered\<close> entries and \<open>covered \<ge> endID\<close>, the run ends
  there with the fatal error of line 102 and does not return normally. Otherwise the
  graph is assembled with \<open>startID = covered\<close> and \<open>lastMapRev = lastRev\<close>: the source
  reads the entries of \<open>[covered, endID)\<close>, the prior tiles are those of revision
  \<open>lastRev\<close>, and whatever follows is not a range error. So the run ends with a range
  error in exactly these two cases.
\<close>

theorem incremental_mode_range:
  assumes inc: "incrementalUpdate f" and nv: "\<not> buildVersionList f"
    and st: "newSumDBMirrorFromFlags f w = (t1, Inr sumDB)"
      "sinkFromFlags f w = (t2, Inr (mapDB, r))"
      "getEntryMetadata sumDB = (t3, Inr (golden, T))"
    and enough: "\<not> T < count f"
  shows
    "(let endID = (if count f < 0 then T else count f) in
      (\<forall>err. LatestRevision mapDB = Inl err \<longrightarrow>
         main f w = (t1 @ t2 @ t3 @ [EvLatestRevision], Exited (FailedToGetLatestRevision err))) \<and>
      (\<forall>lastRev cp covered. LatestRevision mapDB = Inr (lastRev, cp, covered) \<and> covered \<ge> endID \<longrightarrow>
         main f w = (t1 @ t2 @ t3 @ [EvLatestRevision], Exited (StartGeEnd covered endID))) \<and>
      (\<forall>lastRev cp covered. LatestRevision mapDB = Inr (lastRev, cp, covered) \<and> covered < endID \<longrightarrow>
         (\<exists>rest out.
            build_and_commit f w sumDB mapDB r golden endID covered lastRev =
              ([EvBeamInit, EvNewPipelineWithRoot, EvInfofUpdating lastRev covered endID,
                EvBatchmapUpdate
                  (ParDo_tileFromDBRowFn (DatabaseQuery (mapDBString f) (SelectTiles lastRev)))
                  (CreateEntries (treeID f)
                     (DatabaseQuery (sumDBString f) (SelectLeafMetadata covered endID)))
                  (treeID f) hash (prefixStrata f)] @ rest, out) \<and>
            main f w =
              (t1 @ t2 @ t3 @
               [EvLatestRevision, EvBeamInit, EvNewPipelineWithRoot,
                EvInfofUpdating lastRev covered endID,
                EvBatchmapUpdate
                  (ParDo_tileFromDBRowFn (DatabaseQuery (mapDBString f) (SelectTiles lastRev)))
                  (CreateEntries (treeID f)
                     (DatabaseQuery (sumDBString f) (SelectLeafMetadata covered endID)))
                  (treeID f) hash (prefixStrata f)] @ rest, out) \<and>
            (\<forall>x. out = Exited x \<longrightarrow> \<not> range_error x))) \<and>
      ((\<exists>x. snd (main f w) = Exited x \<and> range_error x) \<longleftrightarrow>
         ((\<exists>err. LatestRevision mapDB = Inl err) \<or>
          (\<exists>lastRev cp covered. LatestRevision mapDB = Inr (lastRev, cp, covered) \<and> covered \<ge> endID))) \<and>
      ((\<exists>lastRev cp covered. LatestRevision mapDB = Inr (lastRev, cp, covered) \<and> covered \<ge> endID) \<longrightarrow>
         snd (main f w) \<noteq> Returned))"
proof -
  let ?E = "if count f < 0 then T else count f"
  have E: "resolve_endID f T = ?E" by (simp add: resolve_endID_def)
  from newSumDB_Inr [OF st(1)] have s: "dbString sumDB = sumDBString f" by simp
  from nv have nc: "\<not> (buildVersionList f \<and> incrementalUpdate f)" by simp
  have m: "main f w =
     (case resolve_startID f mapDB ?E of
        (t4, Inl x) \<Rightarrow> (t1 @ t2 @ t3 @ t4, Exited x)
      | (t4, Inr (startID, lastMapRev)) \<Rightarrow>
          (case build_and_commit f w sumDB mapDB r golden ?E startID lastMapRev of
             (t5, out) \<Rightarrow> (t1 @ t2 @ t3 @ t4 @ t5, out)))"
    using main_stages [OF nc st] enough E by simp
  have a: "main f w = (t1 @ t2 @ t3 @ [EvLatestRevision], Exited (FailedToGetLatestRevision err))"
    if "LatestRevision mapDB = Inl err" for err
    using that m inc by (simp add: resolve_startID_def)
  have b: "main f w = (t1 @ t2 @ t3 @ [EvLatestRevision], Exited (StartGeEnd covered ?E))"
    if "LatestRevision mapDB = Inr (lastRev, cp, covered)" "covered \<ge> ?E" for lastRev cp covered
    using that m inc by (simp add: resolve_startID_def)
  have c: "\<exists>rest out.
            build_and_commit f w sumDB mapDB r golden ?E covered lastRev =
              ([EvBeamInit, EvNewPipelineWithRoot, EvInfofUpdating lastRev covered ?E,
                EvBatchmapUpdate
                  (ParDo_tileFromDBRowFn (DatabaseQuery (mapDBString f) (SelectTiles lastRev)))
                  (CreateEntries (treeID f)
                     (DatabaseQuery (sumDBString f) (SelectLeafMetadata covered ?E)))
                  (treeID f) hash (prefixStrata f)] @ rest, out) \<and>
            main f w =
              (t1 @ t2 @ t3 @
               [EvLatestRevision, EvBeamInit, EvNewPipelineWithRoot,
                EvInfofUpdating lastRev covered ?E,
                EvBatchmapUpdate
                  (ParDo_tileFromDBRowFn (DatabaseQuery (mapDBString f) (SelectTiles lastRev)))
                  (CreateEntries (treeID f)
                     (DatabaseQuery (sumDBString f) (SelectLeafMetadata covered ?E)))
                  (treeID f) hash (prefixStrata f)] @ rest, out) \<and>
            (\<forall>x. out = Exited x \<longrightarrow> \<not> range_error x)"
    if lr: "LatestRevision mapDB = Inr (lastRev, cp, covered)" "covered < ?E" for lastRev cp covered
  proof -
    obtain t5 out where bc: "build_and_commit f w sumDB mapDB r golden ?E covered lastRev = (t5, out)"
      by force
    from lr inc have rs: "resolve_startID f mapDB ?E = ([EvLatestRevision], Inr (covered, lastRev))"
      by (simp add: resolve_startID_def)
    from m rs bc have m': "main f w = (t1 @ t2 @ t3 @ [EvLatestRevision] @ t5, out)" by simp
    have ae: "assemble_entries f sumDB covered ?E =
        CreateEntries (treeID f) (DatabaseQuery (sumDBString f) (SelectLeafMetadata covered ?E))"
      using nv s by (simp add: assemble_entries_def beamSource_def)
    from build_full [OF bc] inc ae obtain rest where
      t5: "t5 = [EvBeamInit, EvNewPipelineWithRoot, EvInfofUpdating lastRev covered ?E,
                EvBatchmapUpdate
                  (ParDo_tileFromDBRowFn (DatabaseQuery (mapDBString f) (SelectTiles lastRev)))
                  (CreateEntries (treeID f)
                     (DatabaseQuery (sumDBString f) (SelectLeafMetadata covered ?E)))
                  (treeID f) hash (prefixStrata f)] @ rest"
      and out: "\<forall>x. out = Exited x \<longrightarrow> \<not> range_error x"
      by auto
    from bc m' t5 out show ?thesis by auto
  qed
  have d: "(\<exists>x. snd (main f w) = Exited x \<and> range_error x) \<longleftrightarrow>
         ((\<exists>err. LatestRevision mapDB = Inl err) \<or>
          (\<exists>lastRev cp covered. LatestRevision mapDB = Inr (lastRev, cp, covered) \<and> covered \<ge> ?E))"
  proof (cases "LatestRevision mapDB")
    case (Inl err)
    with a [OF Inl] show ?thesis by auto
  next
    case (Inr trip)
    obtain lastRev cp covered where trip: "trip = (lastRev, cp, covered)" by (cases trip) auto
    show ?thesis
    proof (cases "covered \<ge> ?E")
      case True
      with b [of lastRev cp covered] Inr trip show ?thesis by auto
    next
      case False
      then have "covered < ?E" by simp
      from c [OF Inr [unfolded trip] this] Inr trip False show ?thesis by auto
    qed
  qed
  have e: "snd (main f w) \<noteq> Returned"
    if "\<exists>lastRev cp covered. LatestRevision mapDB = Inr (lastRev, cp, covered) \<and> covered \<ge> ?E"
    using that b by auto
  from a b c d e show ?thesis unfolding Let_def by blast
qed

theorem incremental_mode_range_witness:
  "main (sample_flags\<lparr>incrementalUpdate := True, count := 2\<rparr>)
        (sample_env sample_mirror sample_tiledb) =
     ([EvSqlOpen ''sum.db'', EvNewTileDB ''map.db'', EvInit, EvNextWriteRevision,
       EvQueryCheckpoint, EvQueryLeafCount, EvLatestRevision],
      Exited (StartGeEnd 2 2))"
proof -
  let ?f = "sample_flags\<lparr>incrementalUpdate := True, count := 2\<rparr>"
  let ?w = "sample_env sample_mirror sample_tiledb"
  have inc: "incrementalUpdate ?f" by simp
  have nv: "\<not> buildVersionList ?f" by (simp add: sample_flags_def)
  have s1: "newSumDBMirrorFromFlags ?f ?w =
      ([EvSqlOpen ''sum.db''], Inr \<lparr>dbString = ''sum.db'', db = sample_mirror\<rparr>)"
    by (simp add: newSumDBMirrorFromFlags_def sample_flags_def sample_env_def)
  have s2: "sinkFromFlags ?f ?w =
      ([EvNewTileDB ''map.db'', EvInit, EvNextWriteRevision], Inr (sample_tiledb, 1))"
    by (simp add: sinkFromFlags_def sample_flags_def sample_env_def sample_tiledb_def)
  have s3: "getEntryMetadata \<lparr>dbString = ''sum.db'', db = sample_mirror\<rparr> =
      ([EvQueryCheckpoint, EvQueryLeafCount], Inr ([3], 3))"
    by (simp add: getEntryMetadata_def order_by_datetime_desc_def limit_1_def sample_mirror_def)
  have enough: "\<not> 3 < count ?f" by simp
  have lr: "LatestRevision sample_tiledb = Inr (0, [1], 2)" by (simp add: sample_tiledb_def)
  from incremental_mode_range [OF inc nv s1 s2 s3 enough] lr show ?thesis
    by (simp add: Let_def)
qed

text \<open>
  C5, as the program has it. A run makes at most one call of the tree builder, and it
  makes one exactly when it gets as far as creating the pipeline; a run that ends
  earlier makes none. A call of \<open>batchmap.Create\<close> occurs only in full mode: its leaves
  are built without reading table \<open>tiles\<close>, the run never asked for the latest revision,
  and the other arguments are the tree ID, the hash and the prefix strata of the flags.
  A call of \<open>batchmap.Update\<close> occurs only in incremental mode: its prior tiles are the
  rows of the query on table \<open>tiles\<close> for the revision number that \<open>LatestRevision\<close>
  answered, each passed through \<open>tileFromDBRowFn\<close>, with the same other arguments. In
  both modes an error of the call ends the run with the fatal error of line 126 before
  anything is run or written, and otherwise the graph that is run is the sink applied to
  the collection that this call returned, with the allocated revision. Every graph that
  is run has this form.
\<close>

theorem one_tree_call_by_mode:
  "length (filter tree_call (fst (main f w))) \<le> 1 \<and>
   (EvNewPipelineWithRoot \<in> set (fst (main f w)) \<longleftrightarrow>
      length (filter tree_call (fst (main f w))) = 1) \<and>
   (\<forall>entries t h s. EvBatchmapCreate entries t h s \<in> set (fst (main f w)) \<longrightarrow>
      \<not> incrementalUpdate f \<and> \<not> reads_tiles entries \<and>
      EvLatestRevision \<notin> set (fst (main f w)) \<and>
      t = treeID f \<and> h = hash \<and> s = prefixStrata f \<and>
      (\<forall>err. batchmap_Create w entries t h s = Some err \<longrightarrow>
         snd (main f w) = Exited (FailedToCreatePipeline err) \<and>
         (\<forall>e\<in>set (fst (main f w)). \<not> tile_or_revision_write e)) \<and>
      (batchmap_Create w entries t h s = None \<longrightarrow>
         (\<exists>t2 mapDB r.
            sinkFromFlags f w = (t2, Inr (mapDB, r)) \<and>
            EvRun (sink_pipeline f r (BatchmapCreate entries t h s)) \<in> set (fst (main f w))))) \<and>
   (\<forall>prior entries t h s. EvBatchmapUpdate prior entries t h s \<in> set (fst (main f w)) \<longrightarrow>
      incrementalUpdate f \<and>
      (\<exists>t2 mapDB r lastRev cp covered.
         sinkFromFlags f w = (t2, Inr (mapDB, r)) \<and>
         LatestRevision mapDB = Inr (lastRev, cp, covered) \<and>
         prior = ParDo_tileFromDBRowFn (DatabaseQuery (mapDBString f) (SelectTiles lastRev)) \<and>
         (batchmap_Update w prior entries t h s = None \<longrightarrow>
            EvRun (sink_pipeline f r (BatchmapUpdate prior entries t h s)) \<in> set (fst (main f w)))) \<and>
      t = treeID f \<and> h = hash \<and> s = prefixStrata f \<and>
      (\<forall>err. batchmap_Update w prior entries t h s = Some err \<longrightarrow>
         snd (main f w) = Exited (FailedToCreatePipeline err) \<and>
         (\<forall>e\<in>set (fst (main f w)). \<not> tile_or_revision_write e))) \<and>
   (\<forall>p. EvRun p \<in> set (fst (main f w)) \<longrightarrow>
      (\<exists>r entries.
         (\<not> incrementalUpdate f \<and>
          EvBatchmapCreate entries (treeID f) hash (prefixStrata f) \<in> set (fst (main f w)) \<and>
          batchmap_Create w entries (treeID f) hash (prefixStrata f) = None \<and>
          p = sink_pipeline f r (BatchmapCreate entries (treeID f) hash (prefixStrata f))) \<or>
         (\<exists>prior. incrementalUpdate f \<and>
          EvBatchmapUpdate prior entries (treeID f) hash (prefixStrata f) \<in> set (fst (main f w)) \<and>
          batchmap_Update w prior entries (treeID f) hash (prefixStrata f) = None \<and>
          p = sink_pipeline f r (BatchmapUpdate prior entries (treeID f) hash (prefixStrata f)))))"
proof (cases "(\<exists>e\<in>set (fst (main f w)). graph_event e \<or> tile_or_revision_write e \<or> tree_call e)
           \<or> snd (main f w) = Returned")
  case False
  then have none: "\<forall>e\<in>set (fst (main f w)). \<not> tree_call e \<and> \<not> graph_event e" by blast
  then have "filter tree_call (fst (main f w)) = []" by (simp only: filter_empty_conv) blast
  moreover have "EvNewPipelineWithRoot \<notin> set (fst (main f w))" using none by force
  moreover have "EvBatchmapCreate entries t h s \<notin> set (fst (main f w))" for entries t h s
    using none by force
  moreover have "EvBatchmapUpdate prior entries t h s \<notin> set (fst (main f w))" for prior entries t h s
    using none by force
  moreover have "EvRun p \<notin> set (fst (main f w))" for p
    using none by force
  ultimately show ?thesis by simp
next
  case True
  then show ?thesis
  proof (rule reached_build)
    fix t1 sumDB t2 mapDB r t3 golden totalLeaves t4 startID lastMapRev t5 out
    assume st: "newSumDBMirrorFromFlags f w = (t1, Inr sumDB)"
      "sinkFromFlags f w = (t2, Inr (mapDB, r))"
      "getEntryMetadata sumDB = (t3, Inr (golden, totalLeaves))"
      "resolve_startID f mapDB (resolve_endID f totalLeaves) = (t4, Inr (startID, lastMapRev))"
      and b: "build_and_commit f w sumDB mapDB r golden (resolve_endID f totalLeaves) startID
                lastMapRev = (t5, out)"
      and m: "main f w = (t1 @ t2 @ t3 @ t4 @ t5, out)"
    let ?E = "resolve_endID f totalLeaves"
    let ?entries = "assemble_entries f sumDB startID ?E"
    let ?prior = "ParDo_tileFromDBRowFn (DatabaseQuery (mapDBString f) (SelectTiles lastMapRev))"
    let ?pre = "t1 @ t2 @ t3 @ t4"
    note plain = prefix_events_plain [OF st(1,2,3,4)]
    have pre: "filter tree_call ?pre = []"
      by (rule prefix_no_tree_call [OF st(1,2,3,4)])
    have pre_run: "EvRun p \<notin> set ?pre" for p
    proof
      assume "EvRun p \<in> set ?pre"
      with plain have "\<not> graph_event (EvRun p)" by blast
      then show False by simp
    qed
    have pre_write: "\<forall>e\<in>set ?pre. \<not> tile_or_revision_write e"
      using plain by blast
    from build_exact [OF b] obtain info call allTiles answer where
      mode: "(incrementalUpdate f \<and> info = EvInfofUpdating lastMapRev startID ?E \<and>
                call = EvBatchmapUpdate ?prior ?entries (treeID f) hash (prefixStrata f) \<and>
                allTiles = BatchmapUpdate ?prior ?entries (treeID f) hash (prefixStrata f) \<and>
                answer = batchmap_Update w ?prior ?entries (treeID f) hash (prefixStrata f)) \<or>
             (\<not> incrementalUpdate f \<and> info = EvInfofCreating ?E \<and>
                call = EvBatchmapCreate ?entries (treeID f) hash (prefixStrata f) \<and>
                allTiles = BatchmapCreate ?entries (treeID f) hash (prefixStrata f) \<and>
                answer = batchmap_Create w ?entries (treeID f) hash (prefixStrata f))"
      and shape: "(\<exists>err. answer = Some err \<and> t5 = [EvBeamInit, EvNewPipelineWithRoot, info, call] \<and>
                      out = Exited (FailedToCreatePipeline err)) \<or>
             (answer = None \<and>
               (t5 = [EvBeamInit, EvNewPipelineWithRoot, info, call, EvRun (sink_pipeline f r allTiles)] \<or>
                t5 = [EvBeamInit, EvNewPipelineWithRoot, info, call, EvRun (sink_pipeline f r allTiles),
                      EvWriteRevision r golden ?E]))"
      by blast
    from mode have tc: "tree_call call" "\<not> tree_call info" by auto
    from shape obtain rest where t5: "t5 = [EvBeamInit, EvNewPipelineWithRoot, info, call] @ rest"
      and rest: "rest = [] \<or> rest = [EvRun (sink_pipeline f r allTiles)] \<or>
                 rest = [EvRun (sink_pipeline f r allTiles), EvWriteRevision r golden ?E]"
      by auto
    from rest have frest: "filter tree_call rest = []" by auto
    have tr: "fst (main f w) = ?pre @ [EvBeamInit, EvNewPipelineWithRoot, info, call] @ rest"
      using m t5 by simp
    have "filter tree_call (fst (main f w)) =
        filter tree_call ?pre @ filter tree_call ([EvBeamInit, EvNewPipelineWithRoot, info, call] @ rest)"
      unfolding tr by (rule filter_append)
    also have "\<dots> = [call]"
      unfolding pre using tc frest by simp
    finally have one: "filter tree_call (fst (main f w)) = [call]" .
    have np: "EvNewPipelineWithRoot \<in> set (fst (main f w))" unfolding tr by simp
    have mem: "e = call" if "e \<in> set (fst (main f w))" "tree_call e" for e
    proof -
      from that have "e \<in> set (filter tree_call (fst (main f w)))" by simp
      with one show ?thesis by simp
    qed
    have call_in: "call \<in> set (fst (main f w))" unfolding tr by simp
    have infow: "\<not> tile_or_revision_write info" "\<not> tile_or_revision_write call"
      using mode by auto
    have err_abort: "snd (main f w) = Exited (FailedToCreatePipeline err) \<and>
         (\<forall>e\<in>set (fst (main f w)). \<not> tile_or_revision_write e)"
      if "answer = Some err" for err
    proof -
      from shape that have "t5 = [EvBeamInit, EvNewPipelineWithRoot, info, call]"
        "out = Exited (FailedToCreatePipeline err)" by auto
      with m pre_write infow show ?thesis by auto
    qed
    have run_in: "EvRun (sink_pipeline f r allTiles) \<in> set (fst (main f w))" if "answer = None"
    proof -
      from shape that have "EvRun (sink_pipeline f r allTiles) \<in> set t5" by auto
      with m show ?thesis by simp
    qed
    have run_only: "answer = None \<and> p = sink_pipeline f r allTiles"
      if "EvRun p \<in> set (fst (main f w))" for p
    proof -
      from that m pre_run [of p] have in5: "EvRun p \<in> set t5" by auto
      from mode have "info \<noteq> EvRun p" "call \<noteq> EvRun p" by auto
      with in5 shape show ?thesis by auto
    qed
    have create: "\<not> incrementalUpdate f \<and> \<not> reads_tiles entries \<and>
        EvLatestRevision \<notin> set (fst (main f w)) \<and> t = treeID f \<and> h = hash \<and> s = prefixStrata f \<and>
        (\<forall>err. batchmap_Create w entries t h s = Some err \<longrightarrow>
           snd (main f w) = Exited (FailedToCreatePipeline err) \<and>
           (\<forall>e\<in>set (fst (main f w)). \<not> tile_or_revision_write e)) \<and>
        (batchmap_Create w entries t h s = None \<longrightarrow>
           (\<exists>t2 mapDB r.
              sinkFromFlags f w = (t2, Inr (mapDB, r)) \<and>
              EvRun (sink_pipeline f r (BatchmapCreate entries t h s)) \<in> set (fst (main f w))))"
      if "EvBatchmapCreate entries t h s \<in> set (fst (main f w))" for entries t h s
    proof -
      from mem [OF that] have c: "call = EvBatchmapCreate entries t h s" by simp
      with mode have full: "\<not> incrementalUpdate f" and eq: "entries = ?entries" "t = treeID f"
        "h = hash" "s = prefixStrata f"
        and at: "allTiles = BatchmapCreate entries t h s"
        and an: "answer = batchmap_Create w entries t h s" by auto
      from start_Inr [OF st(4)] full have "t4 = []" by simp
      moreover have "EvLatestRevision \<notin> set t1" "EvLatestRevision \<notin> set t2" "EvLatestRevision \<notin> set t3"
        using newSumDB_events [OF st(1)] sink_events [OF st(2)] meta_events [OF st(3)] by auto
      moreover have "EvLatestRevision \<notin> set rest" using rest by auto
      ultimately have nl: "EvLatestRevision \<notin> set (fst (main f w))"
        unfolding tr using mode full by auto
      have nr: "\<not> reads_tiles entries" using eq(1) assemble_entries_no_tiles by simp
      have e1: "\<forall>err. batchmap_Create w entries t h s = Some err \<longrightarrow>
           snd (main f w) = Exited (FailedToCreatePipeline err) \<and>
           (\<forall>e\<in>set (fst (main f w)). \<not> tile_or_revision_write e)"
        using err_abort an by simp
      have e2: "batchmap_Create w entries t h s = None \<longrightarrow>
           (\<exists>t2 mapDB r.
              sinkFromFlags f w = (t2, Inr (mapDB, r)) \<and>
              EvRun (sink_pipeline f r (BatchmapCreate entries t h s)) \<in> set (fst (main f w)))"
        using run_in an at st(2) by auto
      show ?thesis by (intro conjI full nr nl eq(2,3,4) e1 e2)
    qed
    have update: "incrementalUpdate f \<and>
      (\<exists>t2 mapDB r lastRev cp covered.
         sinkFromFlags f w = (t2, Inr (mapDB, r)) \<and>
         LatestRevision mapDB = Inr (lastRev, cp, covered) \<and>
         prior = ParDo_tileFromDBRowFn (DatabaseQuery (mapDBString f) (SelectTiles lastRev)) \<and>
         (batchmap_Update w prior entries t h s = None \<longrightarrow>
            EvRun (sink_pipeline f r (BatchmapUpdate prior entries t h s)) \<in> set (fst (main f w)))) \<and>
      t = treeID f \<and> h = hash \<and> s = prefixStrata f \<and>
      (\<forall>err. batchmap_Update w prior entries t h s = Some err \<longrightarrow>
         snd (main f w) = Exited (FailedToCreatePipeline err) \<and>
         (\<forall>e\<in>set (fst (main f w)). \<not> tile_or_revision_write e))"
      if "EvBatchmapUpdate prior entries t h s \<in> set (fst (main f w))" for prior entries t h s
    proof -
      from mem [OF that] have c: "call = EvBatchmapUpdate prior entries t h s" by simp
      with mode have inc: "incrementalUpdate f" and eq: "prior = ?prior" "t = treeID f"
        "h = hash" "s = prefixStrata f"
        and at: "allTiles = BatchmapUpdate prior entries t h s"
        and an: "answer = batchmap_Update w prior entries t h s" by auto
      from start_Inr [OF st(4)] inc obtain cp where lr: "LatestRevision mapDB = Inr (lastMapRev, cp, startID)"
        by auto
      have e1: "\<forall>err. batchmap_Update w prior entries t h s = Some err \<longrightarrow>
           snd (main f w) = Exited (FailedToCreatePipeline err) \<and>
           (\<forall>e\<in>set (fst (main f w)). \<not> tile_or_revision_write e)"
        using err_abort an by simp
      have e2: "batchmap_Update w prior entries t h s = None \<longrightarrow>
            EvRun (sink_pipeline f r (BatchmapUpdate prior entries t h s)) \<in> set (fst (main f w))"
        using run_in an at by auto
      have ex: "\<exists>t2 mapDB r lastRev cp covered.
         sinkFromFlags f w = (t2, Inr (mapDB, r)) \<and>
         LatestRevision mapDB = Inr (lastRev, cp, covered) \<and>
         prior = ParDo_tileFromDBRowFn (DatabaseQuery (mapDBString f) (SelectTiles lastRev)) \<and>
         (batchmap_Update w prior entries t h s = None \<longrightarrow>
            EvRun (sink_pipeline f r (BatchmapUpdate prior entries t h s)) \<in> set (fst (main f w)))"
        by (rule exI [of _ t2], rule exI [of _ mapDB], rule exI [of _ r],
            rule exI [of _ lastMapRev], rule exI [of _ cp], rule exI [of _ startID])
           (intro conjI st(2) lr eq(1) e2)
      show ?thesis by (intro conjI inc ex eq(2,3,4) e1)
    qed
    have run: "\<exists>r entries.
         (\<not> incrementalUpdate f \<and>
          EvBatchmapCreate entries (treeID f) hash (prefixStrata f) \<in> set (fst (main f w)) \<and>
          batchmap_Create w entries (treeID f) hash (prefixStrata f) = None \<and>
          p = sink_pipeline f r (BatchmapCreate entries (treeID f) hash (prefixStrata f))) \<or>
         (\<exists>prior. incrementalUpdate f \<and>
          EvBatchmapUpdate prior entries (treeID f) hash (prefixStrata f) \<in> set (fst (main f w)) \<and>
          batchmap_Update w prior entries (treeID f) hash (prefixStrata f) = None \<and>
          p = sink_pipeline f r (BatchmapUpdate prior entries (treeID f) hash (prefixStrata f)))"
      if "EvRun p \<in> set (fst (main f w))" for p
    proof (cases "incrementalUpdate f")
      case True
      with mode run_only [OF that] call_in
      have "EvBatchmapUpdate ?prior ?entries (treeID f) hash (prefixStrata f) \<in> set (fst (main f w))"
        "batchmap_Update w ?prior ?entries (treeID f) hash (prefixStrata f) = None"
        "p = sink_pipeline f r (BatchmapUpdate ?prior ?entries (treeID f) hash (prefixStrata f))"
        by auto
      with True show ?thesis by blast
    next
      case False
      with mode run_only [OF that] call_in
      have "EvBatchmapCreate ?entries (treeID f) hash (prefixStrata f) \<in> set (fst (main f w))"
        "batchmap_Create w ?entries (treeID f) hash (prefixStrata f) = None"
        "p = sink_pipeline f r (BatchmapCreate ?entries (treeID f) hash (prefixStrata f))"
        by auto
      with False show ?thesis by blast
    qed
    from one np have a: "length (filter tree_call (fst (main f w))) \<le> 1"
      "EvNewPipelineWithRoot \<in> set (fst (main f w)) \<longleftrightarrow>
         length (filter tree_call (fst (main f w))) = 1" by simp_all
    have c: "\<forall>entries t h s. EvBatchmapCreate entries t h s \<in> set (fst (main f w)) \<longrightarrow>
      \<not> incrementalUpdate f \<and> \<not> reads_tiles entries \<and>
      EvLatestRevision \<notin> set (fst (main f w)) \<and>
      t = treeID f \<and> h = hash \<and> s = prefixStrata f \<and>
      (\<forall>err. batchmap_Create w entries t h s = Some err \<longrightarrow>
         snd (main f w) = Exited (FailedToCreatePipeline err) \<and>
         (\<forall>e\<in>set (fst (main f w)). \<not> tile_or_revision_write e)) \<and>
      (batchmap_Create w entries t h s = None \<longrightarrow>
         (\<exists>t2 mapDB r.
            sinkFromFlags f w = (t2, Inr (mapDB, r)) \<and>
            EvRun (sink_pipeline f r (BatchmapCreate entries t h s)) \<in> set (fst (main f w))))"
      by (intro allI impI) (rule create)
    have u: "\<forall>prior entries t h s. EvBatchmapUpdate prior entries t h s \<in> set (fst (main f w)) \<longrightarrow>
      incrementalUpdate f \<and>
      (\<exists>t2 mapDB r lastRev cp covered.
         sinkFromFlags f w = (t2, Inr (mapDB, r)) \<and>
         LatestRevision mapDB = Inr (lastRev, cp, covered) \<and>
         prior = ParDo_tileFromDBRowFn (DatabaseQuery (mapDBString f) (SelectTiles lastRev)) \<and>
         (batchmap_Update w prior entries t h s = None \<longrightarrow>
            EvRun (sink_pipeline f r (BatchmapUpdate prior entries t h s)) \<in> set (fst (main f w)))) \<and>
      t = treeID f \<and> h = hash \<and> s = prefixStrata f \<and>
      (\<forall>err. batchmap_Update w prior entries t h s = Some err \<longrightarrow>
         snd (main f w) = Exited (FailedToCreatePipeline err) \<and>
         (\<forall>e\<in>set (fst (main f w)). \<not> tile_or_revision_write e))"
      by (intro allI impI) (rule update)
    have rn: "\<forall>p. EvRun p \<in> set (fst (main f w)) \<longrightarrow>
      (\<exists>r entries.
         (\<not> incrementalUpdate f \<and>
          EvBatchmapCreate entries (treeID f) hash (prefixStrata f) \<in> set (fst (main f w)) \<and>
          batchmap_Create w entries (treeID f) hash (prefixStrata f) = None \<and>
          p = sink_pipeline f r (BatchmapCreate entries (treeID f) hash (prefixStrata f))) \<or>
         (\<exists>prior. incrementalUpdate f \<and>
          EvBatchmapUpdate prior entries (treeID f) hash (prefixStrata f) \<in> set (fst (main f w)) \<and>
          batchmap_Update w prior entries (treeID f) hash (prefixStrata f) = None \<and>
          p = sink_pipeline f r (BatchmapUpdate prior entries (treeID f) hash (prefixStrata f))))"
      by (intro allI impI) (rule run)
    show ?thesis by (intro conjI a c u rn)
  qed
qed

theorem one_tree_call_by_mode_witness:
  "EvBatchmapUpdate
     (ParDo_tileFromDBRowFn (DatabaseQuery ''map.db'' (SelectTiles 0)))
     (CreateEntries 12345 (DatabaseQuery ''sum.db'' (SelectLeafMetadata 2 3)))
     12345 SHA512_256 2
     \<in> set (fst (main (sample_flags\<lparr>incrementalUpdate := True\<rparr>)
                      (sample_env sample_mirror sample_tiledb))) \<and>
   (\<exists>r. EvRun (sink_pipeline (sample_flags\<lparr>incrementalUpdate := True\<rparr>) r
              (BatchmapUpdate
                 (ParDo_tileFromDBRowFn (DatabaseQuery ''map.db'' (SelectTiles 0)))
                 (CreateEntries 12345 (DatabaseQuery ''sum.db'' (SelectLeafMetadata 2 3)))
                 12345 SHA512_256 2))
     \<in> set (fst (main (sample_flags\<lparr>incrementalUpdate := True\<rparr>)
                      (sample_env sample_mirror sample_tiledb)))) \<and>
   length (filter tree_call
     (fst (main (sample_flags\<lparr>incrementalUpdate := True\<rparr>)
             (sample_env sample_mirror sample_tiledb)))) = 1 \<and>
   snd (main (sample_flags\<lparr>incrementalUpdate := True\<rparr>)
          (rejecting_builder_env sample_mirror sample_tiledb)) =
     Exited (FailedToCreatePipeline (External ''prefix strata out of range'')) \<and>
   filter tile_or_revision_write
     (fst (main (sample_flags\<lparr>incrementalUpdate := True\<rparr>)
             (rejecting_builder_env sample_mirror sample_tiledb))) = []"
proof -
  let ?f = "sample_flags\<lparr>incrementalUpdate := True\<rparr>"
  let ?w = "sample_env sample_mirror sample_tiledb"
  let ?v = "rejecting_builder_env sample_mirror sample_tiledb"
  let ?prior = "ParDo_tileFromDBRowFn (DatabaseQuery ''map.db'' (SelectTiles 0))"
  let ?entries = "CreateEntries 12345 (DatabaseQuery ''sum.db'' (SelectLeafMetadata 2 3))"
  have h1: "EvBatchmapUpdate ?prior ?entries 12345 SHA512_256 2 \<in> set (fst (main ?f ?w))"
    by (simp add: run_defs sample_defs Let_def)
  have h2: "batchmap_Update ?w ?prior ?entries 12345 SHA512_256 2 = None"
    by (simp add: sample_env_def)
  have h3: "EvNewPipelineWithRoot \<in> set (fst (main ?f ?w))"
    by (simp add: run_defs sample_defs Let_def)
  have h4: "EvBatchmapUpdate ?prior ?entries 12345 SHA512_256 2 \<in> set (fst (main ?f ?v))"
    by (simp add: run_defs sample_defs Let_def)
  have h5: "batchmap_Update ?v ?prior ?entries 12345 SHA512_256 2 =
      Some (External ''prefix strata out of range'')"
    by (simp add: rejecting_builder_env_def sample_env_def)
  note ok = one_tree_call_by_mode [of ?f ?w]
  note bad = one_tree_call_by_mode [of ?f ?v]
  from ok h1 h2
  have a: "\<exists>r. EvRun (sink_pipeline ?f r (BatchmapUpdate ?prior ?entries 12345 SHA512_256 2))
             \<in> set (fst (main ?f ?w))"
    by blast
  from ok h3 have b: "length (filter tree_call (fst (main ?f ?w))) = 1" by blast
  from bad h4 h5
  have c: "snd (main ?f ?v) = Exited (FailedToCreatePipeline (External ''prefix strata out of range'')) \<and>
           (\<forall>e\<in>set (fst (main ?f ?v)). \<not> tile_or_revision_write e)"
    by blast
  then have d: "filter tile_or_revision_write (fst (main ?f ?v)) = []"
    by (simp only: filter_empty_conv) blast
  from h1 a b c d show ?thesis by blast
qed

text \<open>
  C5, as the specification states it (exactly one of the two calls in every
  invocation), does not hold of the program: a run that ends before the graph is
  assembled makes neither call. Here the cap is 9 on a mirror of 3 entries.
\<close>

theorem one_tree_call_per_invocation_counterexample:
  "main (sample_flags\<lparr>count := 9\<rparr>) (sample_env sample_mirror sample_tiledb) =
     ([EvSqlOpen ''sum.db'', EvNewTileDB ''map.db'', EvInit, EvNextWriteRevision,
       EvQueryCheckpoint, EvQueryLeafCount],
      Exited (WantedLeaves 9 3)) \<and>
   length (filter tree_call
     (fst (main (sample_flags\<lparr>count := 9\<rparr>) (sample_env sample_mirror sample_tiledb)))) = 0"
  by (simp add: run_defs sample_defs Let_def)

text \<open>
  C7, as the program has it. Only the check of the two flags comes before the
  allocation: a run that ends with the configuration error has made no call at all,
  while \<open>NextWriteRevision\<close> is called inside \<open>sinkFromFlags\<close>, before the log metadata
  is read. Every read that range resolution depends on (the latest checkpoint, the entry
  count, the latest revision) comes after the allocation, and a run that ends with a
  range error has allocated a revision number before.
\<close>

theorem revision_allocated_before_range_resolution:
  "(\<forall>pre e post. fst (main f w) = pre @ e # post \<and> range_event e \<longrightarrow>
       EvNextWriteRevision \<in> set pre) \<and>
   (\<forall>x. snd (main f w) = Exited x \<and> range_error x \<longrightarrow>
       EvNextWriteRevision \<in> set (fst (main f w))) \<and>
   (\<forall>x. snd (main f w) = Exited x \<and> config_error x \<longrightarrow> fst (main f w) = [])"
proof (cases rule: main_cases [of f w])
  case config
  then show ?thesis by simp
next
  case (sumdb t1 err)
  from newSumDB_trace [OF sumdb(2)] sumdb(3) show ?thesis
    by (auto simp: append_eq_Cons_conv Cons_eq_append_conv)
next
  case (mapdb t1 sumDB t2 err)
  from newSumDB_Inr [OF mapdb(2)] sink_trace [OF mapdb(3)] mapdb(4) show ?thesis
    by (auto simp: append_eq_Cons_conv Cons_eq_append_conv)
next
  case (metadata t1 sumDB t2 mapDB r t3 err)
  let ?xs = "[EvSqlOpen (sumDBString f), EvNewTileDB (mapDBString f), EvInit, EvNextWriteRevision]"
  from newSumDB_Inr [OF metadata(2)] sink_Inr [OF metadata(3)] metadata(5)
  have m: "main f w = (?xs @ t3, Exited (FailedToGetEntryMetadata err))" by simp
  have "EvNextWriteRevision \<in> set pre" if "fst (main f w) = pre @ e # post" "range_event e"
    for pre e post
  proof -
    from that(2) have "e \<notin> set ?xs" by auto
    with before_in_prefix [of ?xs t3 pre e post] that(1) m show ?thesis by auto
  qed
  with m show ?thesis by auto
next
  case (wanted t1 sumDB t2 mapDB r t3 golden totalLeaves)
  let ?xs = "[EvSqlOpen (sumDBString f), EvNewTileDB (mapDBString f), EvInit, EvNextWriteRevision]"
  from newSumDB_Inr [OF wanted(2)] sink_Inr [OF wanted(3)] wanted(6)
  have m: "main f w = (?xs @ t3, Exited (WantedLeaves (count f) totalLeaves))" by simp
  have "EvNextWriteRevision \<in> set pre" if "fst (main f w) = pre @ e # post" "range_event e"
    for pre e post
  proof -
    from that(2) have "e \<notin> set ?xs" by auto
    with before_in_prefix [of ?xs t3 pre e post] that(1) m show ?thesis by auto
  qed
  with m show ?thesis by auto
next
  case (range t1 sumDB t2 mapDB r t3 golden totalLeaves t4 x)
  let ?xs = "[EvSqlOpen (sumDBString f), EvNewTileDB (mapDBString f), EvInit, EvNextWriteRevision]"
  from newSumDB_Inr [OF range(2)] sink_Inr [OF range(3)] range(7)
  have m: "main f w = (?xs @ (t3 @ t4), Exited x)" by simp
  have "EvNextWriteRevision \<in> set pre" if "fst (main f w) = pre @ e # post" "range_event e"
    for pre e post
  proof -
    from that(2) have "e \<notin> set ?xs" by auto
    with before_in_prefix [of ?xs "t3 @ t4" pre e post] that(1) m show ?thesis by auto
  qed
  moreover from start_Inl [OF range(6)] have "\<not> config_error x" by auto
  ultimately show ?thesis using m by auto
next
  case (built t1 sumDB t2 mapDB r t3 golden totalLeaves t4 startID lastMapRev t5 out)
  let ?xs = "[EvSqlOpen (sumDBString f), EvNewTileDB (mapDBString f), EvInit, EvNextWriteRevision]"
  from newSumDB_Inr [OF built(2)] sink_Inr [OF built(3)] built(8)
  have m: "main f w = (?xs @ (t3 @ t4 @ t5), out)" by simp
  have "EvNextWriteRevision \<in> set pre" if "fst (main f w) = pre @ e # post" "range_event e"
    for pre e post
  proof -
    from that(2) have "e \<notin> set ?xs" by auto
    with before_in_prefix [of ?xs "t3 @ t4 @ t5" pre e post] that(1) m show ?thesis by auto
  qed
  moreover from build_full [OF built(7)] have "\<forall>x. out = Exited x \<longrightarrow> \<not> config_error x" by auto
  ultimately show ?thesis using m by auto
qed

theorem revision_allocated_before_range_resolution_witness:
  "snd (main (sample_flags\<lparr>count := 7\<rparr>) (sample_env sample_mirror sample_tiledb)) =
     Exited (WantedLeaves 7 3) \<and>
   EvNextWriteRevision \<in>
     set (fst (main (sample_flags\<lparr>count := 7\<rparr>) (sample_env sample_mirror sample_tiledb)))"
proof -
  have h: "snd (main (sample_flags\<lparr>count := 7\<rparr>) (sample_env sample_mirror sample_tiledb)) =
     Exited (WantedLeaves 7 3)"
    by (simp add: run_defs sample_defs Let_def)
  have r: "range_error (WantedLeaves 7 3)" by simp
  from revision_allocated_before_range_resolution
         [of "sample_flags\<lparr>count := 7\<rparr>" "sample_env sample_mirror sample_tiledb"] h r
  show ?thesis by blast
qed

text \<open>
  C7, as the specification states it (range resolution completes first, the revision
  number is allocated only then), does not hold of the program. In this run, with a cap
  of 5 on a mirror of 3 entries, the fourth call allocates the revision number; the
  metadata reads follow, and range resolution then ends the run with the error of
  insufficient entries.
\<close>

theorem allocation_after_range_resolution_counterexample:
  "main (sample_flags\<lparr>count := 5\<rparr>) (sample_env sample_mirror sample_tiledb) =
     ([EvSqlOpen ''sum.db'', EvNewTileDB ''map.db'', EvInit, EvNextWriteRevision,
       EvQueryCheckpoint, EvQueryLeafCount],
      Exited (WantedLeaves 5 3))"
  by (simp add: run_defs sample_defs Let_def)

text \<open>
  C8. When \<open>getEntryMetadata\<close> succeeds, the checkpoint it returns is a row of table
  \<open>checkpoints\<close> whose \<open>datetime\<close> is the greatest of the table, and the count is the
  number of rows of \<open>leafMetadata\<close>. With no checkpoint in the table it returns an
  error. A run on a mirror without checkpoints ends with a fatal error, constructs and
  runs no graph and writes no tile and no revision; when the run got as far as the
  checkpoint query, the error is the one of line 79 with \<open>sql.ErrNoRows\<close>.
\<close>

theorem latest_checkpoint_and_entry_count:
  "(\<forall>t cp n. getEntryMetadata m = (t, Inr (cp, n)) \<longrightarrow>
      n = int (length (leafMetadata (db m))) \<and>
      (\<exists>dt. (dt, cp) \<in> set (checkpoints (db m)) \<and>
            (\<forall>row\<in>set (checkpoints (db m)). fst row \<le> dt))) \<and>
   (checkpoints (db m) = [] \<longrightarrow> (\<exists>t err. getEntryMetadata m = (t, Inl err))) \<and>
   (sql_Open w (sumDBString f) = Inr (db m) \<and> checkpoints (db m) = [] \<longrightarrow>
      (\<exists>x. snd (main f w) = Exited x) \<and>
      (\<forall>e\<in>set (fst (main f w)). \<not> graph_event e \<and> \<not> tile_or_revision_write e) \<and>
      (EvQueryCheckpoint \<in> set (fst (main f w)) \<and> checkpointQueryErr (db m) = None \<longrightarrow>
         main f w =
           ([EvSqlOpen (sumDBString f), EvNewTileDB (mapDBString f), EvInit, EvNextWriteRevision,
             EvQueryCheckpoint],
            Exited (FailedToGetEntryMetadata ErrNoRows))))"
proof (intro conjI)
  show "\<forall>t cp n. getEntryMetadata m = (t, Inr (cp, n)) \<longrightarrow>
      n = int (length (leafMetadata (db m))) \<and>
      (\<exists>dt. (dt, cp) \<in> set (checkpoints (db m)) \<and>
            (\<forall>row\<in>set (checkpoints (db m)). fst row \<le> dt))"
    using meta_Inr [of m] by blast
  show "checkpoints (db m) = [] \<longrightarrow> (\<exists>t err. getEntryMetadata m = (t, Inl err))"
    using meta_no_checkpoint [of m] by (auto split: option.splits)
  show "sql_Open w (sumDBString f) = Inr (db m) \<and> checkpoints (db m) = [] \<longrightarrow>
      (\<exists>x. snd (main f w) = Exited x) \<and>
      (\<forall>e\<in>set (fst (main f w)). \<not> graph_event e \<and> \<not> tile_or_revision_write e) \<and>
      (EvQueryCheckpoint \<in> set (fst (main f w)) \<and> checkpointQueryErr (db m) = None \<longrightarrow>
         main f w =
           ([EvSqlOpen (sumDBString f), EvNewTileDB (mapDBString f), EvInit, EvNextWriteRevision,
             EvQueryCheckpoint],
            Exited (FailedToGetEntryMetadata ErrNoRows)))"
  proof
    assume a: "sql_Open w (sumDBString f) = Inr (db m) \<and> checkpoints (db m) = []"
    have nometa: False if "newSumDBMirrorFromFlags f w = (t1, Inr sumDB)"
      "getEntryMetadata sumDB = (t3, Inr (golden, totalLeaves))" for t1 sumDB t3 golden totalLeaves
    proof -
      from newSumDB_Inr [OF that(1)] a have "checkpoints (db sumDB) = []" by simp
      with meta_Inr [OF that(2)] show False by auto
    qed
    have never: False
      if "(\<exists>e\<in>set (fst (main f w)). graph_event e \<or> tile_or_revision_write e \<or> tree_call e)
           \<or> snd (main f w) = Returned"
      using that by (rule reached_build) (rule nometa)
    have 1: "\<exists>x. snd (main f w) = Exited x"
      using never by (cases "snd (main f w)") auto
    have 2: "\<forall>e\<in>set (fst (main f w)). \<not> graph_event e \<and> \<not> tile_or_revision_write e"
      using never by blast
    have 3: "main f w =
           ([EvSqlOpen (sumDBString f), EvNewTileDB (mapDBString f), EvInit, EvNextWriteRevision,
             EvQueryCheckpoint],
            Exited (FailedToGetEntryMetadata ErrNoRows))"
      if q: "EvQueryCheckpoint \<in> set (fst (main f w))" and ok: "checkpointQueryErr (db m) = None"
    proof (cases rule: main_cases [of f w])
      case config
      with q show ?thesis by simp
    next
      case (sumdb t1 err)
      with q show ?thesis by (auto dest: newSumDB_events)
    next
      case (mapdb t1 sumDB t2 err)
      with q show ?thesis by (auto dest: newSumDB_events sink_events)
    next
      case (metadata t1 sumDB t2 mapDB r t3 err)
      from newSumDB_Inr [OF metadata(2)] a have d: "db sumDB = db m"
        and t1: "t1 = [EvSqlOpen (sumDBString f)]" by simp_all
      from sink_Inr [OF metadata(3)]
      have t2: "t2 = [EvNewTileDB (mapDBString f), EvInit, EvNextWriteRevision]" by simp
      from meta_Inl [OF metadata(4)] d ok a have "t3 = [EvQueryCheckpoint]" "err = ErrNoRows"
        by auto
      with metadata(5) t1 t2 show ?thesis by simp
    next
      case (wanted t1 sumDB t2 mapDB r t3 golden totalLeaves)
      from nometa [OF wanted(2,4)] show ?thesis ..
    next
      case (range t1 sumDB t2 mapDB r t3 golden totalLeaves t4 x)
      from nometa [OF range(2,4)] show ?thesis ..
    next
      case (built t1 sumDB t2 mapDB r t3 golden totalLeaves t4 startID lastMapRev t5 out)
      from nometa [OF built(2,4)] show ?thesis ..
    qed
    from 1 2 3 show "(\<exists>x. snd (main f w) = Exited x) \<and>
      (\<forall>e\<in>set (fst (main f w)). \<not> graph_event e \<and> \<not> tile_or_revision_write e) \<and>
      (EvQueryCheckpoint \<in> set (fst (main f w)) \<and> checkpointQueryErr (db m) = None \<longrightarrow>
         main f w =
           ([EvSqlOpen (sumDBString f), EvNewTileDB (mapDBString f), EvInit, EvNextWriteRevision,
             EvQueryCheckpoint],
            Exited (FailedToGetEntryMetadata ErrNoRows)))" by blast
  qed
qed

theorem latest_checkpoint_and_entry_count_witness:
  "getEntryMetadata \<lparr>dbString = ''sum.db'', db = sample_mirror\<rparr> =
     ([EvQueryCheckpoint, EvQueryLeafCount], Inr ([3], 3)) \<and>
   3 = int (length (leafMetadata sample_mirror)) \<and>
   (\<exists>dt. (dt, [3]) \<in> set (checkpoints sample_mirror) \<and>
         (\<forall>row\<in>set (checkpoints sample_mirror). fst row \<le> dt)) \<and>
   main sample_flags (sample_env empty_mirror sample_tiledb) =
     ([EvSqlOpen ''sum.db'', EvNewTileDB ''map.db'', EvInit, EvNextWriteRevision,
       EvQueryCheckpoint],
      Exited (FailedToGetEntryMetadata ErrNoRows))"
proof -
  let ?m = "\<lparr>dbString = ''sum.db'', db = sample_mirror\<rparr>"
  let ?e = "\<lparr>dbString = ''sum.db'', db = empty_mirror\<rparr>"
  let ?w = "sample_env empty_mirror sample_tiledb"
  have g: "getEntryMetadata ?m = ([EvQueryCheckpoint, EvQueryLeafCount], Inr ([3], 3))"
    by (simp add: getEntryMetadata_def order_by_datetime_desc_def limit_1_def sample_mirror_def)
  from latest_checkpoint_and_entry_count [of ?m ?w sample_flags] g
  have a: "3 = int (length (leafMetadata sample_mirror)) \<and>
     (\<exists>dt. (dt, [3]) \<in> set (checkpoints sample_mirror) \<and>
           (\<forall>row\<in>set (checkpoints sample_mirror). fst row \<le> dt))"
    by simp
  have h1: "sql_Open ?w (sumDBString sample_flags) = Inr (db ?e) \<and> checkpoints (db ?e) = []"
    by (simp add: sample_env_def empty_mirror_def)
  have h2: "EvQueryCheckpoint \<in> set (fst (main sample_flags ?w))"
    by (simp add: run_defs sample_defs Let_def)
  have h3: "checkpointQueryErr (db ?e) = None" by (simp add: empty_mirror_def)
  from latest_checkpoint_and_entry_count [of ?e ?w sample_flags] h1 h2 h3
  have "main sample_flags ?w =
     ([EvSqlOpen (sumDBString sample_flags), EvNewTileDB (mapDBString sample_flags), EvInit,
       EvNextWriteRevision, EvQueryCheckpoint],
      Exited (FailedToGetEntryMetadata ErrNoRows))"
    by blast
  then have b: "main sample_flags ?w =
     ([EvSqlOpen ''sum.db'', EvNewTileDB ''map.db'', EvInit, EvNextWriteRevision,
       EvQueryCheckpoint],
      Exited (FailedToGetEntryMetadata ErrNoRows))"
    by (simp add: sample_flags_def)
  from g a b show ?thesis by blast
qed

text \<open>
  C9. Let \<open>json.Unmarshal\<close> read back every tile that \<open>json.Marshal\<close> writes, and let
  tile \<open>t\<close> marshal. Then \<open>ProcessElement\<close> of \<open>tileToDBRowFn\<close> with revision \<open>r\<close>
  answers a row whose \<open>Revision\<close> is \<open>r\<close> and whose \<open>Path\<close> is the path of \<open>t\<close>, and
  \<open>tileFromDBRowFn\<close> applied to that row answers \<open>t\<close>. Every row that the transform
  produces from a collection of tiles carries \<open>r\<close>, and the graph that \<open>main\<close> runs
  applies the transform with the revision number that \<open>sinkFromFlags\<close> allocated.
\<close>

theorem tile_row_round_trip:
  assumes codec: "\<And>x bs. marshal x = Inr bs \<Longrightarrow> unmarshal bs = Inr x"
    and ok: "marshal t = Inr bs"
  shows "(\<exists>row. ProcessElement marshal \<lparr>fn_Revision = r\<rparr> t = Inr row \<and>
            Revision row = r \<and> Path row = tile_Path t \<and>
            tileFromDBRowFn unmarshal row = Inr t) \<and>
    (\<forall>ts rows. parDo (ProcessElement marshal \<lparr>fn_Revision = r\<rparr>) ts = Inr rows \<longrightarrow>
       (\<forall>row\<in>set rows. Revision row = r)) \<and>
    (\<forall>p. EvRun p \<in> set (fst (main f w)) \<longrightarrow>
       (\<exists>t2 mapDB allocated allTiles.
          sinkFromFlags f w = (t2, Inr (mapDB, allocated)) \<and>
          p = WriteWithBatchSize (batchSize f) (mapDBString f) ''tiles''
                (ParDo_tileToDBRowFn \<lparr>fn_Revision = allocated\<rparr> allTiles)))"
proof (intro conjI allI impI)
  from codec [OF ok] ok
  show "\<exists>row. ProcessElement marshal \<lparr>fn_Revision = r\<rparr> t = Inr row \<and>
            Revision row = r \<and> Path row = tile_Path t \<and>
            tileFromDBRowFn unmarshal row = Inr t"
    by (simp add: ProcessElement_def tileFromDBRowFn_def)
next
  fix ts rows
  assume "parDo (ProcessElement marshal \<lparr>fn_Revision = r\<rparr>) ts = Inr rows"
  then show "\<forall>row\<in>set rows. Revision row = r" by (rule parDo_revision)
next
  fix p
  assume a: "EvRun p \<in> set (fst (main f w))"
  then have "(\<exists>e\<in>set (fst (main f w)). graph_event e \<or> tile_or_revision_write e \<or> tree_call e)
           \<or> snd (main f w) = Returned" by force
  then show "\<exists>t2 mapDB allocated allTiles.
          sinkFromFlags f w = (t2, Inr (mapDB, allocated)) \<and>
          p = WriteWithBatchSize (batchSize f) (mapDBString f) ''tiles''
                (ParDo_tileToDBRowFn \<lparr>fn_Revision = allocated\<rparr> allTiles)"
  proof (rule reached_build)
    fix t1 sumDB t2 mapDB r t3 golden totalLeaves t4 startID lastMapRev t5 out
    assume st: "newSumDBMirrorFromFlags f w = (t1, Inr sumDB)"
      "sinkFromFlags f w = (t2, Inr (mapDB, r))"
      "getEntryMetadata sumDB = (t3, Inr (golden, totalLeaves))"
      "resolve_startID f mapDB (resolve_endID f totalLeaves) = (t4, Inr (startID, lastMapRev))"
      and b: "build_and_commit f w sumDB mapDB r golden (resolve_endID f totalLeaves) startID
                lastMapRev = (t5, out)"
      and m: "main f w = (t1 @ t2 @ t3 @ t4 @ t5, out)"
    have "EvRun p \<notin> set (t1 @ t2 @ t3 @ t4)"
    proof
      assume "EvRun p \<in> set (t1 @ t2 @ t3 @ t4)"
      with prefix_events_plain [OF st(1,2,3,4)] have "\<not> graph_event (EvRun p)" by blast
      then show False by simp
    qed
    with a m have "EvRun p \<in> set t5" by auto
    with build_full [OF b] obtain allTiles where "p = sink_pipeline f r allTiles" by auto
    with st(2) show ?thesis by (auto simp: sink_pipeline_def)
  qed
qed

theorem tile_row_round_trip_witness:
  "path_marshal \<lparr>tile_Path = [1, 2]\<rparr> = Inr [1, 2] \<and>
   (\<exists>row. ProcessElement path_marshal \<lparr>fn_Revision = 5\<rparr> \<lparr>tile_Path = [1, 2]\<rparr> = Inr row \<and>
          Revision row = 5 \<and> Path row = [1, 2] \<and>
          tileFromDBRowFn path_unmarshal row = Inr \<lparr>tile_Path = [1, 2]\<rparr>)"
proof -
  have codec: "path_unmarshal bs = Inr x" if "path_marshal x = Inr bs" for x bs
    using that by (auto simp: path_marshal_def path_unmarshal_def)
  have ok: "path_marshal \<lparr>tile_Path = [1, 2]\<rparr> = Inr [1, 2]"
    by (simp add: path_marshal_def)
  from tile_row_round_trip [of path_marshal path_unmarshal "\<lparr>tile_Path = [1, 2]\<rparr>" "[1, 2]" 5,
         OF codec ok] ok
  show ?thesis by simp
qed

text \<open>
  C10. With a negative \<open>count\<close> the run does not depend on which negative number it
  is: any other negative value gives the same calls and the same end. The run never ends
  with the error of insufficient entries, and once the metadata is read \<open>endID\<close> is the
  number of entries available: the rest of the run is range resolution and build with
  \<open>endID = T\<close>.
\<close>

theorem negative_count_is_unbounded:
  assumes neg: "count f < 0" and neg': "c < 0"
  shows "main (f\<lparr>count := c\<rparr>) w = main f w \<and>
    (\<forall>a b. snd (main f w) \<noteq> Exited (WantedLeaves a b)) \<and>
    (\<forall>t1 sumDB t2 mapDB r t3 golden T.
       \<not> (buildVersionList f \<and> incrementalUpdate f) \<and>
       newSumDBMirrorFromFlags f w = (t1, Inr sumDB) \<and>
       sinkFromFlags f w = (t2, Inr (mapDB, r)) \<and>
       getEntryMetadata sumDB = (t3, Inr (golden, T)) \<longrightarrow>
       resolve_endID f T = T \<and>
       main f w =
         (case resolve_startID f mapDB T of
            (t4, Inl x) \<Rightarrow> (t1 @ t2 @ t3 @ t4, Exited x)
          | (t4, Inr (startID, lastMapRev)) \<Rightarrow>
              (case build_and_commit f w sumDB mapDB r golden T startID lastMapRev of
                 (t5, out) \<Rightarrow> (t1 @ t2 @ t3 @ t4 @ t5, out))))"
proof (intro conjI allI impI)
  let ?g = "f\<lparr>count := c\<rparr>"
  have g: "count ?g < 0" "buildVersionList ?g = buildVersionList f"
    "incrementalUpdate ?g = incrementalUpdate f" using neg' by simp_all
  show "main ?g w = main f w"
  proof (cases rule: main_cases [of f w])
    case config
    then show ?thesis by (simp add: main_def)
  next
    case (sumdb t1 err)
    then show ?thesis by (auto simp: main_def count_update_stages)
  next
    case (mapdb t1 sumDB t2 err)
    then show ?thesis by (auto simp: main_def count_update_stages)
  next
    case (metadata t1 sumDB t2 mapDB r t3 err)
    then show ?thesis by (auto simp: main_def count_update_stages)
  next
    case (wanted t1 sumDB t2 mapDB r t3 golden totalLeaves)
    from meta_Inr [OF wanted(4)] wanted(5) neg show ?thesis by simp
  next
    case (range t1 sumDB t2 mapDB r t3 golden totalLeaves t4 x)
    have "main ?g w = main f w"
      using main_unbounded [of ?g w t1 sumDB t2 mapDB r t3 golden totalLeaves]
        main_unbounded [of f w t1 sumDB t2 mapDB r t3 golden totalLeaves]
        neg g range(1,2,3,4)
      by (simp add: count_update_stages)
    then show ?thesis .
  next
    case (built t1 sumDB t2 mapDB r t3 golden totalLeaves t4 startID lastMapRev t5 out)
    have "main ?g w = main f w"
      using main_unbounded [of ?g w t1 sumDB t2 mapDB r t3 golden totalLeaves]
        main_unbounded [of f w t1 sumDB t2 mapDB r t3 golden totalLeaves]
        neg g built(1,2,3,4)
      by (simp add: count_update_stages)
    then show ?thesis .
  qed
next
  fix a b
  show "snd (main f w) \<noteq> Exited (WantedLeaves a b)"
  proof (cases rule: main_cases [of f w])
    case (wanted t1 sumDB t2 mapDB r t3 golden totalLeaves)
    from meta_Inr [OF wanted(4)] wanted(5) neg show ?thesis by simp
  next
    case (range t1 sumDB t2 mapDB r t3 golden totalLeaves t4 x)
    from start_Inl [OF range(6)] range(7) show ?thesis by auto
  next
    case (built t1 sumDB t2 mapDB r t3 golden totalLeaves t4 startID lastMapRev t5 out)
    from build_full [OF built(7)] built(8) show ?thesis by auto
  qed simp_all
next
  fix t1 sumDB t2 mapDB r t3 golden T
  assume a: "\<not> (buildVersionList f \<and> incrementalUpdate f) \<and>
       newSumDBMirrorFromFlags f w = (t1, Inr sumDB) \<and>
       sinkFromFlags f w = (t2, Inr (mapDB, r)) \<and>
       getEntryMetadata sumDB = (t3, Inr (golden, T))"
  then show "resolve_endID f T = T" using neg by (simp add: resolve_endID_def)
  from a show "main f w =
         (case resolve_startID f mapDB T of
            (t4, Inl x) \<Rightarrow> (t1 @ t2 @ t3 @ t4, Exited x)
          | (t4, Inr (startID, lastMapRev)) \<Rightarrow>
              (case build_and_commit f w sumDB mapDB r golden T startID lastMapRev of
                 (t5, out) \<Rightarrow> (t1 @ t2 @ t3 @ t4 @ t5, out)))"
    using main_unbounded [OF neg, of w t1 sumDB t2 mapDB r t3 golden T] by blast
qed

theorem negative_count_is_unbounded_witness:
  "count sample_flags < 0 \<and> (- 7 :: int) < 0 \<and>
   main (sample_flags\<lparr>count := - 7\<rparr>) (sample_env sample_mirror sample_tiledb) =
   main sample_flags (sample_env sample_mirror sample_tiledb)"
proof -
  have h1: "count sample_flags < 0" by (simp add: sample_flags_def)
  have h2: "(- 7 :: int) < 0" by simp
  from negative_count_is_unbounded [OF h1 h2, of "sample_env sample_mirror sample_tiledb"] h1 h2
  show ?thesis by blast
qed

end
